theory Spec2Isabelle
  imports Main "HOL-Library.Word"
begin

section \<open>String and collection helpers\<close>

text \<open>
  The printer and the resolver call helpers of \<^verbatim>\<open>StringUtils\<close> and
  \<^verbatim>\<open>CollectionUtils\<close> whose bodies are not part of the source files at hand.
  They are modelled here from the way the specification describes them.
\<close>

type_synonym path = string

text \<open>
  Modelled from the spec: \<^verbatim>\<open>StringUtils::split\<close> is missing from the sources. The
  specification treats an argument as "a comma-separated vector whose entries can be
  filtered individually": the entries are the maximal delimiter-free segments, one more
  than there are delimiters. The empty string has no entries, which is the case the
  emptiness test of \<^verbatim>\<open>transformCompilerFlagsToLinkerFlags\<close> (line 85) guards.
\<close>

fun splitAll :: "string \<Rightarrow> char \<Rightarrow> string list" where
  "splitAll [] delim = [[]]"
| "splitAll (c # cs) delim =
     (if c = delim then [] # splitAll cs delim
      else (case splitAll cs delim of
              [] \<Rightarrow> [[c]]
            | t # ts \<Rightarrow> (c # t) # ts))"

definition split :: "string \<Rightarrow> char \<Rightarrow> string list" where
  "split str delim = (if str = [] then [] else splitAll str delim)"

text \<open>
  Modelled from the spec: \<^verbatim>\<open>StringUtils::joinWith\<close> is missing from the sources; it
  writes the items in order with the separator between neighbours.
\<close>

fun joinWith :: "string list \<Rightarrow> string \<Rightarrow> string" where
  "joinWith [] sep = []"
| "joinWith [x] sep = x"
| "joinWith (x # y # ys) sep = x @ sep @ joinWith (y # ys) sep"

text \<open>
  Modelled from the spec: \<^verbatim>\<open>StringUtils::startsWith\<close> is missing from the sources; it
  tests whether the second string is a prefix of the first.
\<close>

definition startsWith :: "string \<Rightarrow> string \<Rightarrow> bool" where
  "startsWith str pattern = (take (length pattern) str = pattern)"

text \<open>
  Modelled from the spec: \<^verbatim>\<open>CollectionUtils::erase_if\<close> is missing from the sources;
  it removes the items the predicate holds for and returns how many it removed.
  \<^verbatim>\<open>CollectionUtils::erase\<close> removes the items equal to a value.
\<close>

definition erase_if :: "'a list \<Rightarrow> ('a \<Rightarrow> bool) \<Rightarrow> 'a list \<times> nat" where
  "erase_if items p = (filter (\<lambda>x. \<not> p x) items, length (filter p items))"

definition erase :: "'a list \<Rightarrow> 'a \<Rightarrow> 'a list" where
  "erase items v = filter (\<lambda>x. x \<noteq> v) items"

text \<open>
  \<^verbatim>\<open>std::to_string\<close> on integers: decimal digits, a minus sign for negative values.
\<close>

definition digit :: "nat \<Rightarrow> char" where
  "digit n = ''0123456789'' ! n"

fun to_string_nat :: "nat \<Rightarrow> string" where
  "to_string_nat n =
     (if n < 10 then [digit n] else to_string_nat (n div 10) @ [digit (n mod 10)])"

declare to_string_nat.simps [simp del]

definition to_string :: "int \<Rightarrow> string" where
  "to_string i =
     (if i < 0 then CHR ''-'' # to_string_nat (nat (- i)) else to_string_nat (nat i))"

section \<open>Linker-flag normalisers of the makefile printer\<close>

text \<open>\<^verbatim>\<open>eraseIfWlOnly\<close>, NativeMakefilePrinter.cpp lines 63-67.\<close>

definition eraseIfWlOnly :: "string \<Rightarrow> string" where
  "eraseIfWlOnly argument = (if argument = ''-Wl'' then [] else argument)"

text \<open>\<^verbatim>\<open>removeLinkerFlag\<close>, lines 69-79: an argument nothing is erased from is returned
  as it came in, without being joined again.\<close>

definition removeLinkerFlag :: "string \<Rightarrow> string \<Rightarrow> string" where
  "removeLinkerFlag argument flag =
     (let (options, erased) =
            erase_if (split argument CHR '','') (\<lambda>option. startsWith option flag)
      in if erased = 0 then argument
         else eraseIfWlOnly (joinWith options '',''))"

text \<open>\<^verbatim>\<open>transformCompilerFlagsToLinkerFlags\<close>, lines 83-93.\<close>

definition transformCompilerFlagsToLinkerFlags :: "string \<Rightarrow> string" where
  "transformCompilerFlagsToLinkerFlags argument =
     (let options = split argument CHR '','' in
      if options = [] then argument
      else if hd options \<noteq> ''-Wl'' then argument
      else joinWith (erase options (hd options)) '' '')"

text \<open>\<^verbatim>\<open>removeScriptFlag\<close>, lines 95-97.\<close>

definition removeScriptFlag :: "string \<Rightarrow> string" where
  "removeScriptFlag argument = removeLinkerFlag argument ''--version-script''"

text \<open>The loop of \<^verbatim>\<open>removeSonameFlag\<close>, lines 103-113; the first argument is the
  local \<^verbatim>\<open>isSonameNext\<close>.\<close>

fun sonameLoop :: "bool \<Rightarrow> string list \<Rightarrow> string list" where
  "sonameLoop isSonameNext [] = []"
| "sonameLoop isSonameNext (option # options) =
     (if option = ''-soname'' then sonameLoop True options
      else if isSonameNext then sonameLoop False options
      else option # sonameLoop False options)"

text \<open>\<^verbatim>\<open>removeSonameFlag\<close>, lines 99-116.\<close>

definition removeSonameFlag :: "string \<Rightarrow> string" where
  "removeSonameFlag argument =
     eraseIfWlOnly (joinWith (sonameLoop False (split argument CHR '','')) '','')"

text \<open>
  \<^verbatim>\<open>NativeMakefilePrinter::tryChangeToRelativePath\<close>, lines 651-661. The
  relativisation \<^verbatim>\<open>getRelativePath\<close> belongs to the base class
  \<^verbatim>\<open>RelativeMakefilePrinter\<close>, which is not among the sources; it is a parameter.
\<close>

definition tryChangeToRelativePath :: "(path \<Rightarrow> path) \<Rightarrow> string \<Rightarrow> string" where
  "tryChangeToRelativePath getRelativePath argument =
     (if startsWith argument ''/'' then getRelativePath argument
      else if length argument \<ge> 3 \<and> startsWith argument ''-I''
      then ''-I'' @ getRelativePath (drop 2 argument)
      else argument)"

text \<open>
  Modelled from the spec: a relativisation in the sense of the specification's path
  mapping, "relative paths anchored at a chosen emit root": a path below the root loses
  the root prefix, any other path is kept. It serves as a concrete instance of the
  parameter above.
\<close>

definition relativeTo :: "path \<Rightarrow> path \<Rightarrow> path" where
  "relativeTo root p =
     (if startsWith p (root @ ''/'') then drop (length root + 1) p else p)"

section \<open>Type resolver: data model\<close>

text \<open>
  The canonical-type identity is a \<^verbatim>\<open>uint64_t\<close>; sizes and alignments are
  \<^verbatim>\<open>uint64_t\<close>/\<^verbatim>\<open>size_t\<close> as well.
\<close>

type_synonym type_id = "64 word"

text \<open>The verbosity levels the resolver logs at, and a log line.\<close>

datatype verbosity = LOG_WARNING | LOG_DEBUG | LOG_MAX

type_synonym log_entry = "verbosity \<times> string"

text \<open>The failures: \<^verbatim>\<open>at\<close> on a missing key of a map, the use of a null
  \<^verbatim>\<open>clang::FunctionType\<close> pointer, and a lookup the build database has no unit for.\<close>

datatype error = OutOfRange | NullPointer | UnknownUnit

text \<open>
  \<^verbatim>\<open>types::Type\<close>, built by \<^verbatim>\<open>types::Type(QualType, std::string)\<close>: the canonical
  clang type and the spelling used. \<^verbatim>\<open>clang::QualType\<close> is the type parameter
  \<open>'qt\<close>; what the code asks clang about it is in \<open>resolver_env\<close> below.
\<close>

record 'qt types_Type =
  canonicalType :: 'qt
  usedType :: string

text \<open>\<^verbatim>\<open>types::FunctionInfo\<close>: name, return type, parameters (type and name), array flag.\<close>

record 'qt FunctionInfo =
  functionName :: string
  returnType :: "'qt types_Type"
  params :: "('qt types_Type \<times> string) list"
  isArray :: bool

text \<open>\<^verbatim>\<open>types::Field\<close>.\<close>

record 'qt Field =
  fieldName :: string
  fieldType :: "'qt types_Type"
  fieldSize :: "64 word"
  fieldOffset :: "64 word"

text \<open>
  What \<^verbatim>\<open>StructInfo\<close>, \<^verbatim>\<open>EnumInfo\<close> and \<^verbatim>\<open>UnionInfo\<close> share; the source's
  \<^verbatim>\<open>definition\<close> and \<^verbatim>\<open>size\<close> are \<open>definitionText\<close> and \<open>sizeInBytes\<close> here,
  and the \<^verbatim>\<open>fields\<close> of a structure and of a union are \<open>structFields\<close> and \<open>unionFields\<close>.
\<close>

record TypeInfo =
  name :: string
  filePath :: path
  definitionText :: string
  sizeInBytes :: "64 word"
  alignment :: "64 word"

record 'qt StructInfo = TypeInfo +
  structFields :: "'qt Field list"
  functionFields :: "string \<rightharpoonup> 'qt FunctionInfo"

record 'qt UnionInfo = TypeInfo +
  unionFields :: "'qt Field list"

record EnumEntry =
  entryName :: string
  entryValue :: string

record EnumInfo = TypeInfo +
  access :: "string option"
  valuesToEntries :: "string \<rightharpoonup> EnumEntry"
  namesToEntries :: "string \<rightharpoonup> EnumEntry"

subsection \<open>The declarations the resolver visits\<close>

text \<open>
  A declaration node is represented by the answers clang gives for it.
  \<^verbatim>\<open>clang::FunctionType\<close>: the return type, and the parameter types when the type is a
  \<^verbatim>\<open>FunctionProtoType\<close> (\<open>None\<close> when the \<^verbatim>\<open>dyn_cast\<close> fails).
\<close>

record 'qt FunctionType =
  getReturnType :: 'qt
  getParamTypes :: "'qt list option"

text \<open>
  \<^verbatim>\<open>clang::FieldDecl\<close>. \<open>fd_getFunctionType\<close> is \<^verbatim>\<open>F->getFunctionType()\<close> and
  \<open>fd_pointeeFunctionType\<close> is
  \<^verbatim>\<open>F->getType()->getPointeeType()->getPointeeType()->getAs<clang::FunctionType>()\<close>,
  \<open>None\<close> for a null pointer; the size and the offset are in bits.
\<close>

record 'qt FieldDecl =
  fd_getNameAsString :: string
  fd_getType :: 'qt
  fd_getFunctionType :: "'qt FunctionType option"
  fd_pointeeFunctionType :: "'qt FunctionType option"
  fd_getTypeSize :: "64 word"
  fd_getFieldOffset :: "64 word"

datatype TagTypeKind = TTK_Struct | TTK_Interface | TTK_Union | TTK_Class | TTK_Enum

text \<open>
  \<^verbatim>\<open>clang::RecordDecl\<close>. \<open>rd_spellingFilename\<close> is the file name of the spelling
  location (used for structs), \<open>rd_filename\<close> that of the location itself (used for
  unions); \<open>rd_mainFile\<close> is the real path of the source manager's main file; size and
  alignment are in bits.
\<close>

record 'qt RecordDecl =
  rd_getNameAsString :: string
  rd_getTypeDeclType :: 'qt
  rd_getTagKind :: TagTypeKind
  rd_spellingFilename :: path
  rd_filename :: path
  rd_mainFile :: path
  rd_getSourceText :: string
  rd_fields :: "'qt FieldDecl list"
  rd_getTypeSize :: "64 word"
  rd_getTypeAlign :: "64 word"

text \<open>A declaration context on the way up from a declaration: a named declaration with its
  name, or a context that is no \<^verbatim>\<open>NamedDecl\<close>.\<close>

datatype DeclContext = NamedDeclContext string | OtherDeclContext

text \<open>
  \<^verbatim>\<open>clang::EnumDecl\<close>. \<open>ed_declContexts\<close> is the chain \<^verbatim>\<open>getDeclContext()\<close>,
  \<^verbatim>\<open>getParent()\<close>, ... up to the null pointer; an enumerator is its name and
  \<^verbatim>\<open>getInitVal().getSExtValue()\<close>.
\<close>

record 'qt EnumDecl =
  ed_getNameAsString :: string
  ed_getTypeDeclType :: 'qt
  ed_filename :: path
  ed_promotionTypeSize :: "64 word"
  ed_declContexts :: "DeclContext list"
  ed_enumerators :: "(string \<times> int) list"
  ed_getSourceText :: string
  ed_getTypeAlign :: "64 word"

datatype 'qt TagDecl =
  IsEnumDecl "'qt EnumDecl"
| IsRecordDecl "'qt RecordDecl"

text \<open>
  What the resolver reads and does not change: clang's operations on types, the helpers
  of \<^verbatim>\<open>types::Type\<close>, \<^verbatim>\<open>Paths\<close> and \<^verbatim>\<open>LogUtils\<close> (none of them among the sources,
  hence parameters), and the read-only members of the parent fetcher.
  \<open>returnedStructure t\<close> is the name of the structure when
  \<^verbatim>\<open>t->isPointerType() && t->getPointeeType()->isStructureType()\<close>.
\<close>

record 'qt resolver_env =
  getCanonicalType :: "'qt \<Rightarrow> 'qt"
  getAsString :: "'qt \<Rightarrow> string"
  getNonReferenceType :: "'qt \<Rightarrow> 'qt"
  getUnqualifiedType :: "'qt \<Rightarrow> 'qt"
  getAsTagDecl :: "'qt \<Rightarrow> 'qt TagDecl option"
  returnedStructure :: "'qt \<Rightarrow> string option"
  getIdFromCanonicalType :: "'qt \<Rightarrow> type_id"
  isPointerToFunction :: "'qt types_Type \<Rightarrow> bool"
  isArrayOfPointersToFunction :: "'qt types_Type \<Rightarrow> bool"
  typeName :: "'qt types_Type \<Rightarrow> string"
  getCCJsonFileFullPath :: "path \<Rightarrow> path \<Rightarrow> path"
  isGtest :: "path \<Rightarrow> bool"
  buildRootPath :: path
  isMaxVerbosity :: bool
  structsDeclared :: "path \<rightharpoonup> string set"

text \<open>
  What the resolver changes: the three registries and the maximum alignment of the
  parent's project types, the structures scheduled for forward declaration, and the log.
\<close>

record 'qt resolver_state =
  structs :: "type_id \<rightharpoonup> 'qt StructInfo"
  enums :: "type_id \<rightharpoonup> EnumInfo"
  unions :: "type_id \<rightharpoonup> 'qt UnionInfo"
  maximumAlignment :: "64 word"
  structsToDeclare :: "path \<Rightarrow> string set"
  logged :: "log_entry list"

section \<open>Type resolver: operations\<close>

text \<open>\<^verbatim>\<open>canBeReplaced\<close>, TypesResolver.cpp lines 21-23.\<close>

definition canBeReplaced :: "string \<Rightarrow> string \<Rightarrow> bool" where
  "canBeReplaced nameInMap nm = (nameInMap = [] \<and> nm \<noteq> [])"

text \<open>\<^verbatim>\<open>isCandidateToReplace\<close>, lines 25-35.\<close>

definition isCandidateToReplace ::
  "type_id \<Rightarrow> (type_id \<rightharpoonup> 'a TypeInfo_scheme) \<Rightarrow> string \<Rightarrow> bool" where
  "isCandidateToReplace ident someMap nm =
     (case someMap ident of
        Some existing \<Rightarrow> canBeReplaced (name existing) nm
      | None \<Rightarrow> True)"

text \<open>
  \<^verbatim>\<open>addInfo\<close>, lines 45-61: the registry after the call and the lines logged.
  \<^verbatim>\<open>emplace\<close> inserts only under a fresh key.
\<close>

definition addInfo ::
  "type_id \<Rightarrow> (type_id \<rightharpoonup> 'a TypeInfo_scheme) \<Rightarrow> 'a TypeInfo_scheme \<Rightarrow>
   (type_id \<rightharpoonup> 'a TypeInfo_scheme) \<times> log_entry list" where
  "addInfo ident someMap info =
     (case someMap ident of
        None \<Rightarrow> (someMap(ident \<mapsto> info), [])
      | Some existing \<Rightarrow>
          (let existed = (LOG_MAX,
                 ''Type with id='' @ to_string_nat (unat ident) @ '' already existed'');
               nameInMap = name existing
           in if canBeReplaced nameInMap (name info)
              then (someMap(ident \<mapsto> info),
                    [existed, (LOG_DEBUG, ''Replace unnamed type with typedef: '' @ name info)])
              else if nameInMap \<noteq> [] \<and> name info = []
              then (someMap,
                    [existed, (LOG_MAX, ''Already replaced with typedef: '' @ nameInMap)])
              else if nameInMap \<noteq> name info
              then (someMap,
                    [existed, (LOG_WARNING,
                       ''Collision happened between: '' @ [CHR 0x27] @ nameInMap @ [CHR 0x27]
                       @ '' and '' @ [CHR 0x27] @ name info @ [CHR 0x27])])
              else (someMap, [existed])))"

text \<open>\<^verbatim>\<open>getRecordSize\<close>, lines 37-39: clang's size in bits, in bytes.\<close>

definition getRecordSize :: "'qt RecordDecl \<Rightarrow> 64 word" where
  "getRecordSize D = rd_getTypeSize D div 8"

text \<open>\<^verbatim>\<open>getDeclAlignment\<close>, lines 41-43, on a tag declaration of either kind.\<close>

definition getDeclAlignment :: "'qt TagDecl \<Rightarrow> 64 word" where
  "getDeclAlignment T =
     (case T of
        IsEnumDecl EN \<Rightarrow> ed_getTypeAlign EN div 8
      | IsRecordDecl D \<Rightarrow> rd_getTypeAlign D div 8)"

text \<open>\<^verbatim>\<open>TypesResolver::updateMaximumAlignment\<close>, lines 193-196.\<close>

definition updateMaximumAlignment ::
  "'qt resolver_state \<Rightarrow> 64 word \<Rightarrow> 'qt resolver_state" where
  "updateMaximumAlignment st al = st\<lparr>maximumAlignment := max (maximumAlignment st) al\<rparr>"

text \<open>\<^verbatim>\<open>ParamsHandler::getType\<close>, FetcherUtils.cpp lines 13-19.\<close>

definition getType :: "'qt resolver_env \<Rightarrow> 'qt \<Rightarrow> 'qt \<Rightarrow> 'qt types_Type" where
  "getType env paramDef paramDecl =
     \<lparr>canonicalType = getCanonicalType env paramDef,
      usedType = getAsString env (getUnqualifiedType env (getNonReferenceType env paramDecl))\<rparr>"

text \<open>
  The loop of \<^verbatim>\<open>getFunctionPointerDeclaration\<close>, lines 32-35; the first argument is
  \<^verbatim>\<open>paramCounter\<close>, an \<^verbatim>\<open>int\<close> incremented before it is printed. It is unbounded
  here: a function type has far fewer than \<open>2^31\<close> parameters.
\<close>

fun paramLoop ::
  "'qt resolver_env \<Rightarrow> int \<Rightarrow> 'qt list \<Rightarrow> ('qt types_Type \<times> string) list" where
  "paramLoop env paramCounter [] = []"
| "paramLoop env paramCounter (ftParam # rest) =
     (getType env ftParam ftParam, ''param'' @ to_string (paramCounter + 1))
     # paramLoop env (paramCounter + 1) rest"

text \<open>\<^verbatim>\<open>ParamsHandler::getFunctionPointerDeclaration\<close>, FetcherUtils.cpp lines 21-39.\<close>

definition getFunctionPointerDeclaration ::
  "'qt resolver_env \<Rightarrow> 'qt FunctionType \<Rightarrow> string \<Rightarrow> bool \<Rightarrow> 'qt FunctionInfo" where
  "getFunctionPointerDeclaration env fType fName isArr =
     \<lparr>functionName = fName,
      returnType = \<lparr>canonicalType = getCanonicalType env (getReturnType fType),
                    usedType = getAsString env (getReturnType fType)\<rparr>,
      params = (case getParamTypes fType of
                  Some paramTypes \<Rightarrow> paramLoop env 0 paramTypes
                | None \<Rightarrow> []),
      isArray = isArr\<rparr>"

text \<open>The line break and the tabulator of the log texts.\<close>

definition nl :: string where
  "nl = [CHR 0x0A]"

definition tab :: string where
  "tab = [CHR 0x09]"

text \<open>
  \<^verbatim>\<open>TypesResolver::resolveStruct\<close>, lines 97-109: a function field that returns a
  pointer to a structure not yet declared in the main file schedules the structure for
  declaration. \<^verbatim>\<open>structsDeclared.at\<close> throws on a file it has no entry for.
\<close>

definition scheduleDeclaration ::
  "'qt resolver_env \<Rightarrow> path \<Rightarrow> 'qt \<Rightarrow> (path \<Rightarrow> string set) \<Rightarrow>
   error + (path \<Rightarrow> string set)" where
  "scheduleDeclaration env sourceFilePath retType toDeclare =
     (case returnedStructure env retType of
        None \<Rightarrow> Inr toDeclare
      | Some structName \<Rightarrow>
          (case structsDeclared env sourceFilePath of
             None \<Rightarrow> Inl OutOfRange
           | Some declared \<Rightarrow>
               if structName \<in> declared then Inr toDeclare
               else Inr (toDeclare(sourceFilePath :=
                           insert structName (toDeclare sourceFilePath)))))"

text \<open>
  The type of a field as lines 91-92 and 225-226 build it: the canonical type of the
  declared type, spelled as clang prints that canonical type.
\<close>

definition fieldTypeOf :: "'qt resolver_env \<Rightarrow> 'qt FieldDecl \<Rightarrow> 'qt types_Type" where
  "fieldTypeOf env F =
     (let paramType = getCanonicalType env (fd_getType F)
      in \<lparr>canonicalType = paramType, usedType = getAsString env paramType\<rparr>)"

text \<open>
  The body of the loop over the fields of a structure, lines 88-121. The accumulator is
  \<^verbatim>\<open>fields\<close>, \<^verbatim>\<open>structInfo.functionFields\<close>, the parent's \<^verbatim>\<open>structsToDeclare\<close>
  and the text collected in \<^verbatim>\<open>ss\<close>.
\<close>

type_synonym 'qt field_acc =
  "'qt Field list \<times> (string \<rightharpoonup> 'qt FunctionInfo) \<times> (path \<Rightarrow> string set) \<times> string"

definition structField ::
  "'qt resolver_env \<Rightarrow> 'qt RecordDecl \<Rightarrow> 'qt field_acc \<Rightarrow> 'qt FieldDecl \<Rightarrow>
   error + 'qt field_acc" where
  "structField env D acc F =
     (case acc of (flds, funs, toDeclare, ss) \<Rightarrow>
      let fname = fd_getNameAsString F;
          ftype = fieldTypeOf env F;
          field = \<lparr>fieldName = fname, fieldType = ftype,
                   fieldSize = fd_getTypeSize F div 8,
                   fieldOffset = fd_getFieldOffset F div 8\<rparr>;
          ss' = (if isMaxVerbosity env
                 then ss @ nl @ tab @ typeName env ftype @ '' '' @ fname @ '';''
                 else ss)
      in if isPointerToFunction env ftype then
           (case fd_getFunctionType F of
              None \<Rightarrow> Inl NullPointer
            | Some fType \<Rightarrow>
                (case scheduleDeclaration env (rd_mainFile D) (getReturnType fType) toDeclare of
                   Inl e \<Rightarrow> Inl e
                 | Inr toDeclare' \<Rightarrow>
                     Inr (flds @ [field],
                          funs(fname \<mapsto> getFunctionPointerDeclaration env fType fname
                                            (isArrayOfPointersToFunction env ftype)),
                          toDeclare', ss')))
         else if isArrayOfPointersToFunction env ftype then
           (case fd_pointeeFunctionType F of
              None \<Rightarrow> Inl NullPointer
            | Some fType \<Rightarrow>
                Inr (flds @ [field],
                     funs(fname \<mapsto> getFunctionPointerDeclaration env fType fname
                                       (isArrayOfPointersToFunction env ftype)),
                     toDeclare, ss'))
         else Inr (flds @ [field], funs, toDeclare, ss'))"

fun structFieldsLoop ::
  "'qt resolver_env \<Rightarrow> 'qt RecordDecl \<Rightarrow> 'qt field_acc \<Rightarrow> 'qt FieldDecl list \<Rightarrow>
   error + 'qt field_acc" where
  "structFieldsLoop env D acc [] = Inr acc"
| "structFieldsLoop env D acc (F # rest) =
     (case structField env D acc F of
        Inl e \<Rightarrow> Inl e
      | Inr acc' \<Rightarrow> structFieldsLoop env D acc' rest)"

text \<open>
  \<^verbatim>\<open>TypesResolver::resolveStruct\<close>, lines 63-132. An exception leaves through \<open>Inl\<close>;
  every return, the early ones too, is \<open>Inr\<close> of the state reached.
\<close>

definition resolveStruct ::
  "'qt resolver_env \<Rightarrow> 'qt resolver_state \<Rightarrow> 'qt RecordDecl \<Rightarrow> string \<Rightarrow>
   error + 'qt resolver_state" where
  "resolveStruct env st D nm =
     (let canonical = getCanonicalType env (rd_getTypeDeclType D);
          ident = getIdFromCanonicalType env canonical
      in if \<not> isCandidateToReplace ident (structs st) nm then Inr st
         else
           let file = getCCJsonFileFullPath env (rd_spellingFilename D) (buildRootPath env)
           in if isGtest env file then Inr st
              else
                (case structFieldsLoop env D
                        ([], Map.empty, structsToDeclare st,
                         ''Struct: '' @ nm @ nl @ tab @ ''File path: '' @ file)
                        (rd_fields D) of
                   Inl e \<Rightarrow> Inl e
                 | Inr (flds, funs, toDeclare, ss) \<Rightarrow>
                     let structInfo =
                           \<lparr>name = nm, filePath = file,
                            definitionText = rd_getSourceText D,
                            sizeInBytes = getRecordSize D,
                            alignment = getDeclAlignment (IsRecordDecl D),
                            structFields = flds, functionFields = funs\<rparr>;
                         (registry, lines) = addInfo ident (structs st) structInfo;
                         ss' = ss @ nl @ ''Name: '' @ nm @ '', id: ''
                               @ to_string_nat (unat ident) @ '' , size: ''
                               @ to_string_nat (unat (sizeInBytes structInfo)) @ nl
                     in Inr (updateMaximumAlignment
                               (st\<lparr>structs := registry, structsToDeclare := toDeclare\<rparr>)
                               (alignment structInfo)
                             \<lparr>logged := logged st @ lines @ [(LOG_DEBUG, ss')]\<rparr>)))"

text \<open>\<^verbatim>\<open>getAccess\<close>, lines 134-152: the loop over the enclosing contexts, then the join.\<close>

fun accessLoop :: "DeclContext list \<Rightarrow> string list" where
  "accessLoop [] = []"
| "accessLoop (NamedDeclContext nm # parents) =
     (if nm \<noteq> [] then nm # accessLoop parents else accessLoop parents)"
| "accessLoop (OtherDeclContext # parents) = []"

definition getAccess :: "DeclContext list \<Rightarrow> string option" where
  "getAccess contexts =
     (let result = accessLoop contexts
      in if result = [] then None else Some (joinWith (rev result) ''::''))"

text \<open>The loop over the enumerators, lines 172-179: both tables of the enum.\<close>

fun enumeratorsLoop ::
  "(string \<rightharpoonup> EnumEntry) \<times> (string \<rightharpoonup> EnumEntry) \<Rightarrow> (string \<times> int) list \<Rightarrow>
   (string \<rightharpoonup> EnumEntry) \<times> (string \<rightharpoonup> EnumEntry)" where
  "enumeratorsLoop tables [] = tables"
| "enumeratorsLoop (byValue, byName) ((entry, initVal) # rest) =
     (let enumEntry = \<lparr>entryName = entry, entryValue = to_string initVal\<rparr>
      in enumeratorsLoop
           (byValue(entryValue enumEntry \<mapsto> enumEntry),
            byName(entryName enumEntry \<mapsto> enumEntry)) rest)"

text \<open>\<^verbatim>\<open>TypesResolver::resolveEnum\<close>, lines 154-192. The path of the declaration is not
  tested against the test-runner library here.\<close>

definition resolveEnum ::
  "'qt resolver_env \<Rightarrow> 'qt resolver_state \<Rightarrow> 'qt EnumDecl \<Rightarrow> string \<Rightarrow>
   'qt resolver_state" where
  "resolveEnum env st EN nm =
     (let canonical = getCanonicalType env (ed_getTypeDeclType EN);
          ident = getIdFromCanonicalType env canonical
      in if \<not> isCandidateToReplace ident (enums st) nm then st
         else
           let file = getCCJsonFileFullPath env (ed_filename EN) (buildRootPath env);
               (byValue, byName) = enumeratorsLoop (Map.empty, Map.empty) (ed_enumerators EN);
               enumInfo =
                 \<lparr>name = nm, filePath = file,
                  definitionText = ed_getSourceText EN,
                  sizeInBytes = ed_promotionTypeSize EN div 8,
                  alignment = getDeclAlignment (IsEnumDecl EN),
                  access = getAccess (ed_declContexts EN),
                  valuesToEntries = byValue, namesToEntries = byName\<rparr>;
               (registry, lines) = addInfo ident (enums st) enumInfo;
               line1 = (LOG_DEBUG, nl @ ''Name: '' @ nm @ '', id: ''
                                   @ to_string_nat (unat ident) @ nl);
               line2 = (LOG_DEBUG, ''EnumInfo: '' @ nm @ nl @ tab @ ''File path: '' @ file)
           in updateMaximumAlignment
                (st\<lparr>enums := registry\<rparr>) (alignment enumInfo)
              \<lparr>logged := logged st @ lines @ [line1, line2]\<rparr>)"

text \<open>
  The loop over the fields of a union, lines 221-232, with the text collected in
  \<^verbatim>\<open>ss\<close>. Size and offset of a field are not assigned there; they are 0 here.
\<close>

fun unionFieldsLoop ::
  "'qt resolver_env \<Rightarrow> 'qt Field list \<times> string \<Rightarrow> 'qt FieldDecl list \<Rightarrow>
   'qt Field list \<times> string" where
  "unionFieldsLoop env acc [] = acc"
| "unionFieldsLoop env (flds, ss) (F # rest) =
     (let fname = fd_getNameAsString F;
          ftype = fieldTypeOf env F;
          field = \<lparr>fieldName = fname, fieldType = ftype, fieldSize = 0, fieldOffset = 0\<rparr>
      in unionFieldsLoop env
           (flds @ [field],
            if isMaxVerbosity env
            then ss @ nl @ tab @ typeName env ftype @ '' '' @ fname @ '';''
            else ss) rest)"

text \<open>\<^verbatim>\<open>TypesResolver::resolveUnion\<close>, lines 198-243.\<close>

definition resolveUnion ::
  "'qt resolver_env \<Rightarrow> 'qt resolver_state \<Rightarrow> 'qt RecordDecl \<Rightarrow> string \<Rightarrow>
   'qt resolver_state" where
  "resolveUnion env st D nm =
     (let canonical = getCanonicalType env (rd_getTypeDeclType D);
          ident = getIdFromCanonicalType env canonical
      in if \<not> isCandidateToReplace ident (unions st) nm then st
         else
           let file = getCCJsonFileFullPath env (rd_filename D) (buildRootPath env)
           in if isGtest env file then st
              else
                let (flds, ss) =
                      unionFieldsLoop env
                        ([], ''Union: '' @ nm @ nl @ tab @ ''File path: '' @ file)
                        (rd_fields D);
                    unionInfo =
                      \<lparr>name = nm, filePath = file,
                       definitionText = rd_getSourceText D,
                       sizeInBytes = getRecordSize D,
                       alignment = getDeclAlignment (IsRecordDecl D),
                       unionFields = flds\<rparr>;
                    (registry, lines) = addInfo ident (unions st) unionInfo;
                    ss' = ss @ nl @ ''Name: '' @ nm @ '', id: ''
                          @ to_string_nat (unat ident) @ nl
                in updateMaximumAlignment
                     (st\<lparr>unions := registry\<rparr>) (alignment unionInfo)
                   \<lparr>logged := logged st @ lines @ [(LOG_DEBUG, ss')]\<rparr>)"

text \<open>
  \<^verbatim>\<open>TypesResolver::resolve\<close>, lines 245-262. A record declaration is a structure, a
  class, a union or an interface; the two tests on it run one after the other.
\<close>

definition resolve ::
  "'qt resolver_env \<Rightarrow> 'qt resolver_state \<Rightarrow> 'qt \<Rightarrow> error + 'qt resolver_state" where
  "resolve env st ty =
     (case getAsTagDecl env ty of
        None \<Rightarrow> Inr st
      | Some (IsEnumDecl enumDecl) \<Rightarrow>
          Inr (resolveEnum env st enumDecl (ed_getNameAsString enumDecl))
      | Some (IsRecordDecl recordDecl) \<Rightarrow>
          (let nm = rd_getNameAsString recordDecl in
           case (if rd_getTagKind recordDecl = TTK_Struct \<or> rd_getTagKind recordDecl = TTK_Class
                 then resolveStruct env st recordDecl nm else Inr st) of
             Inl e \<Rightarrow> Inl e
           | Inr st' \<Rightarrow>
               if rd_getTagKind recordDecl = TTK_Union
               then Inr (resolveUnion env st' recordDecl nm)
               else Inr st'))"

text \<open>A resolution pass: \<^verbatim>\<open>resolve\<close> on one type after the other; an exception ends it.\<close>

fun resolveAll ::
  "'qt resolver_env \<Rightarrow> 'qt resolver_state \<Rightarrow> 'qt list \<Rightarrow> error + 'qt resolver_state" where
  "resolveAll env st [] = Inr st"
| "resolveAll env st (ty # rest) =
     (case resolve env st ty of
        Inl e \<Rightarrow> Inl e
      | Inr st' \<Rightarrow> resolveAll env st' rest)"

text \<open>
  Modelled from the spec: the parent fetcher, which owns the registries and the "maximum
  alignment seen", is not among the sources. A pass starts with nothing seen: empty
  registries and maximum alignment 0.
\<close>

definition initialState :: "'qt resolver_state" where
  "initialState =
     \<lparr>structs = Map.empty, enums = Map.empty, unions = Map.empty,
      maximumAlignment = 0, structsToDeclare = (\<lambda>file. {}), logged = []\<rparr>"


text \<open>
  The canonical-type identity of a tag declaration, as each of the three resolving
  functions computes it first, and the alignments found in the three registries.
\<close>

definition tagId :: "'qt resolver_env \<Rightarrow> 'qt TagDecl \<Rightarrow> type_id" where
  "tagId env T =
     getIdFromCanonicalType env
       (getCanonicalType env
          (case T of
             IsEnumDecl EN \<Rightarrow> ed_getTypeDeclType EN
           | IsRecordDecl D \<Rightarrow> rd_getTypeDeclType D))"



section \<open>Native makefile printer: data model\<close>

text \<open>
  Modelled from the spec: \<^verbatim>\<open>BuildResult\<close> and its \<^verbatim>\<open>Type\<close> are declared in a header
  that is not among the sources. "\<^verbatim>\<open>type\<close> \<open>\<in>\<close> {NONE, NO_STUBS, ALL_STUBS, MIXED}.
  \<^verbatim>\<open>type\<close> forms a monoid under union with identity NONE; MIXED = NO_STUBS \<open>\<union>\<close>
  ALL_STUBS." \<open>typeUnion\<close> is the operator behind \<^verbatim>\<open>unitType |= buildResult.type\<close>.
\<close>

datatype BuildResultType = NONE | NO_STUBS | ALL_STUBS | MIXED

fun typeUnion :: "BuildResultType \<Rightarrow> BuildResultType \<Rightarrow> BuildResultType" where
  "typeUnion NONE t = t"
| "typeUnion t NONE = t"
| "typeUnion NO_STUBS NO_STUBS = NO_STUBS"
| "typeUnion ALL_STUBS ALL_STUBS = ALL_STUBS"
| "typeUnion t t' = MIXED"

record BuildResult =
  br_output :: path
  br_type :: BuildResultType

text \<open>
  Modelled from the spec: \<^verbatim>\<open>utbot::LinkCommand\<close> is not among the sources. A command
  is "an ordered argument vector; a working directory; ... an output path", with the
  invariant that "the first argv element always corresponds to the current compiler
  field". The vector is kept in four parts: the linker, the arguments before the
  output, the output, the arguments after it; \<open>getCommandLine\<close> is the whole vector.
  Flags are prepended behind the linker, which keeps the invariant.
\<close>

record LinkCommand =
  linker :: path
  beforeOutput :: "string list"
  outputArgument :: path
  afterOutput :: "string list"
  directory :: path

definition getCommandLine :: "LinkCommand \<Rightarrow> string list" where
  "getCommandLine c = linker c # beforeOutput c @ [outputArgument c] @ afterOutput c"

text \<open>A loop \<^verbatim>\<open>for (std::string &argument : linkCommand.getCommandLine())\<close> that
  assigns to each argument in turn.\<close>

definition forEachArgument :: "(string \<Rightarrow> string) \<Rightarrow> LinkCommand \<Rightarrow> LinkCommand" where
  "forEachArgument f c =
     c\<lparr>linker := f (linker c), beforeOutput := map f (beforeOutput c),
       outputArgument := f (outputArgument c), afterOutput := map f (afterOutput c)\<rparr>"

definition eraseFlag :: "LinkCommand \<Rightarrow> string \<Rightarrow> LinkCommand" where
  "eraseFlag c flag =
     c\<lparr>beforeOutput := erase (beforeOutput c) flag, afterOutput := erase (afterOutput c) flag\<rparr>"

definition setOutput :: "LinkCommand \<Rightarrow> path \<Rightarrow> LinkCommand" where
  "setOutput c file = c\<lparr>outputArgument := file\<rparr>"

definition setLinker :: "LinkCommand \<Rightarrow> path \<Rightarrow> LinkCommand" where
  "setLinker c file = c\<lparr>linker := file\<rparr>"

definition addFlagsToBegin :: "LinkCommand \<Rightarrow> string list \<Rightarrow> LinkCommand" where
  "addFlagsToBegin c flags = c\<lparr>beforeOutput := flags @ beforeOutput c\<rparr>"

definition addFlagToBegin :: "LinkCommand \<Rightarrow> string \<Rightarrow> LinkCommand" where
  "addFlagToBegin c flag = c\<lparr>beforeOutput := flag # beforeOutput c\<rparr>"

definition addFlagToEnd :: "LinkCommand \<Rightarrow> string \<Rightarrow> LinkCommand" where
  "addFlagToEnd c flag = c\<lparr>afterOutput := afterOutput c @ [flag]\<rparr>"

text \<open>The build database's records of a link unit and of a compilation unit, as far as
  the printer reads them.\<close>

record LinkUnitInfo =
  lu_files :: "path list"
  lu_commands :: "LinkCommand list"
  lu_getOutput :: path

record ObjectFileInfo =
  oi_getSourcePath :: path
  oi_getOutputFile :: path
  oi_commandLine :: "string list"
  oi_getDirectory :: path

text \<open>
  Modelled from the spec: \<^verbatim>\<open>declareTarget\<close> of the base printer is not among the
  sources; it emits one rule, "targets, prerequisites, actions", to the stream.
\<close>

record rule =
  target :: string
  prerequisites :: "string list"
  actions :: "string list"

text \<open>
  What the printer reads and does not change. The build database answers with \<open>None\<close>
  where the source throws on an unknown unit. The helpers of \<^verbatim>\<open>Paths\<close>,
  \<^verbatim>\<open>CompilationUtils\<close>, \<^verbatim>\<open>LinkerUtils\<close>, \<^verbatim>\<open>DynamicLibraryUtils\<close>, of the base
  printer and the remaining methods of \<^verbatim>\<open>LinkCommand\<close> are not among the sources and
  are parameters; those that take the project context have it built in.
  \<open>bundledLinkerFor l\<close> is
  \<^verbatim>\<open>getBundledCompilerPath(getCompilerName(l))\<close>, \<open>underBuildDir p\<close> is
  \<^verbatim>\<open>Paths::isSubPathOf(projectContext.buildDir(), p)\<close>. \<open>getDependencyFile\<close>
  (lines 172-176) rests on \<^verbatim>\<open>fs::relative\<close> and the join of paths and is a parameter
  as well. The compile command that \<^verbatim>\<open>addCompileTarget\<close> builds in lines 227-259 is no
  subject of the properties below: \<open>compileActions\<close> stands for the three actions of the
  rule it declares.
\<close>

record printer_env =
  getClientLinkUnitInfo :: "path \<Rightarrow> LinkUnitInfo option"
  getClientCompilationUnitInfo :: "path \<Rightarrow> ObjectFileInfo option"
  stubSources :: "path set"
  isObjectFile :: "path \<Rightarrow> bool"
  isLibraryFile :: "path \<Rightarrow> bool"
  isSharedLibraryFile :: "path \<Rightarrow> bool"
  isStaticLibraryFile :: "path \<Rightarrow> bool"
  isCXXFile :: "path \<Rightarrow> bool"
  getRecompiledFile :: "path \<Rightarrow> path"
  sourcePathToStubPath :: "path \<Rightarrow> path"
  getWrapperFilePath :: "path \<Rightarrow> path"
  addExtension :: "path \<Rightarrow> string \<Rightarrow> path"
  addPrefix :: "path \<Rightarrow> string \<Rightarrow> path"
  removeSharedLibraryVersion :: "path \<Rightarrow> path"
  getLd :: path
  underBuildDir :: "path \<Rightarrow> bool"
  bundledLinkerFor :: "path \<Rightarrow> path"
  applySuffix :: "path \<Rightarrow> BuildResultType \<Rightarrow> string \<Rightarrow> path"
  getLibraryAbsolutePath :: "string \<Rightarrow> path \<Rightarrow> path option"
  getLibraryDirectoryFlag :: "path \<Rightarrow> string"
  getRelativePath :: "path \<Rightarrow> path"
  getRelativePathForLinker :: "path \<Rightarrow> path"
  getDependencyFile :: "path \<Rightarrow> path"
  isArchiveCommand :: "LinkCommand \<Rightarrow> bool"
  isSharedLibraryCommand :: "LinkCommand \<Rightarrow> bool"
  setOptimizationLevel :: "LinkCommand \<Rightarrow> string \<Rightarrow> LinkCommand"
  toStringWithChangingDirectoryToNew :: "LinkCommand \<Rightarrow> path \<Rightarrow> string"
  toStringWithChangingDirectory :: "string list \<Rightarrow> path \<Rightarrow> string"
  compileActions :: "path \<Rightarrow> path \<Rightarrow> ObjectFileInfo \<Rightarrow> string list"
  primaryCompiler :: path
  coverageLinkFlags :: string
  sanitizerLinkFlags :: string
  buildDirectory :: path

text \<open>What the printer changes: the memo of build results, the shared output, the list of
  artifacts, and the rules written to the stream so far.\<close>

record printer_state =
  buildResults :: "path \<rightharpoonup> BuildResult"
  sharedOutput :: "path option"
  artifacts :: "path list"
  rules :: "rule list"

section \<open>Native makefile printer: operations\<close>

text \<open>The constants of lines 22-32 that the link targets use.\<close>

definition STUB_OBJECT_FILES :: string where
  "STUB_OBJECT_FILES = ''$(STUB_OBJECT_FILES)''"

definition STATIC_FLAG :: string where
  "STATIC_FLAG = ''-static''"

definition SHARED_FLAG :: string where
  "SHARED_FLAG = ''-shared''"

definition RELOCATE_FLAG :: string where
  "RELOCATE_FLAG = ''-r''"

definition OPTIMIZATION_FLAG :: string where
  "OPTIMIZATION_FLAG = ''-O0''"

text \<open>\<^verbatim>\<open>declareTarget\<close> and \<^verbatim>\<open>artifacts.push_back\<close>.\<close>

definition declareTarget ::
  "printer_state \<Rightarrow> string \<Rightarrow> string list \<Rightarrow> string list \<Rightarrow> printer_state" where
  "declareTarget st tgt deps acts =
     st\<lparr>rules := rules st @ [\<lparr>target = tgt, prerequisites = deps, actions = acts\<rparr>]\<rparr>"

definition pushArtifact :: "printer_state \<Rightarrow> path \<Rightarrow> printer_state" where
  "pushArtifact st file = st\<lparr>artifacts := artifacts st @ [file]\<rparr>"

text \<open>
  \<^verbatim>\<open>NativeMakefilePrinter::addCompileTarget\<close>, lines 223-268, as far as it changes the
  printer: one rule and one artifact. Source and output of the command are set to the
  relative paths and then pass, like every argument, through
  \<^verbatim>\<open>tryChangeToRelativePath\<close> (lines 233-238).
\<close>

definition addCompileTarget ::
  "printer_env \<Rightarrow> printer_state \<Rightarrow> path \<Rightarrow> path \<Rightarrow> ObjectFileInfo \<Rightarrow> printer_state" where
  "addCompileTarget env st sourcePath tgt compilationUnitInfo =
     (let rel = tryChangeToRelativePath (getRelativePath env);
          commandOutput = rel (getRelativePath env tgt);
          commandSource = rel (getRelativePath env sourcePath)
      in pushArtifact
           (declareTarget st commandOutput
              [commandSource, getDependencyFile env sourcePath]
              (compileActions env sourcePath tgt compilationUnitInfo))
           commandOutput)"

text \<open>\<^verbatim>\<open>NativeMakefilePrinter::addObjectFile\<close>, lines 270-299.\<close>

definition addObjectFile ::
  "printer_env \<Rightarrow> printer_state \<Rightarrow> path \<Rightarrow> string \<Rightarrow>
   error + BuildResult \<times> printer_state" where
  "addObjectFile env st objectFile suffixForParentOfStubs =
     (case getClientCompilationUnitInfo env objectFile of
        None \<Rightarrow> Inl UnknownUnit
      | Some compilationUnitInfo \<Rightarrow>
          (let sourcePath = oi_getSourcePath compilationUnitInfo;
               (pathToCompile, recompiledFile, buildResultType) =
                 (if sourcePath \<in> stubSources env
                  then (let stub = sourcePathToStubPath env sourcePath
                        in (stub, getRecompiledFile env stub, ALL_STUBS))
                  else ((if isCXXFile env sourcePath then sourcePath
                         else getWrapperFilePath env sourcePath),
                        getRecompiledFile env (oi_getOutputFile compilationUnitInfo),
                        NO_STUBS));
               buildResult = \<lparr>br_output = recompiledFile, br_type = buildResultType\<rparr>
           in Inr (buildResult,
                   addCompileTarget env st pathToCompile (br_output buildResult)
                     compilationUnitInfo)))"

text \<open>\<^verbatim>\<open>NativeMakefilePrinter::getSharedLibrary\<close>, lines 606-612.\<close>

definition getSharedLibrary :: "printer_env \<Rightarrow> path \<Rightarrow> path" where
  "getSharedLibrary env file =
     (let out = removeSharedLibraryVersion env file
      in if isSharedLibraryFile env out then out
         else addPrefix env (addExtension env out ''.so'') ''lib'')"

text \<open>
  Lines 510-514: an argument that is one of the unit's files becomes its recompiled
  counterpart; \<^verbatim>\<open>fileMapping.at\<close> throws where the mapping has no entry.
\<close>

definition substituteInput ::
  "path list \<Rightarrow> (path \<rightharpoonup> path) \<Rightarrow> string \<Rightarrow> error + string" where
  "substituteInput files fileMapping argument =
     (if argument \<in> set files
      then (case fileMapping argument of None \<Rightarrow> Inl OutOfRange | Some file \<Rightarrow> Inr file)
      else Inr argument)"

fun mapOrFail :: "('a \<Rightarrow> error + 'b) \<Rightarrow> 'a list \<Rightarrow> error + 'b list" where
  "mapOrFail f [] = Inr []"
| "mapOrFail f (x # xs) =
     (case f x of
        Inl e \<Rightarrow> Inl e
      | Inr y \<Rightarrow> (case mapOrFail f xs of Inl e \<Rightarrow> Inl e | Inr ys \<Rightarrow> Inr (y # ys)))"

definition substituteInputs ::
  "path list \<Rightarrow> (path \<rightharpoonup> path) \<Rightarrow> LinkCommand \<Rightarrow> error + LinkCommand" where
  "substituteInputs files fileMapping c =
     (case substituteInput files fileMapping (linker c) of
        Inl e \<Rightarrow> Inl e
      | Inr l \<Rightarrow>
     (case mapOrFail (substituteInput files fileMapping) (beforeOutput c) of
        Inl e \<Rightarrow> Inl e
      | Inr argumentsBefore \<Rightarrow>
     (case substituteInput files fileMapping (outputArgument c) of
        Inl e \<Rightarrow> Inl e
      | Inr out \<Rightarrow>
     (case mapOrFail (substituteInput files fileMapping) (afterOutput c) of
        Inl e \<Rightarrow> Inl e
      | Inr argumentsAfter \<Rightarrow>
          Inr (c\<lparr>linker := l, beforeOutput := argumentsBefore, outputArgument := out,
                 afterOutput := argumentsAfter\<rparr>)))))"

text \<open>Lines 529-539: the library-directory flag an argument gives rise to, if any.\<close>

definition libraryDirectoryFlags :: "printer_env \<Rightarrow> path \<Rightarrow> string \<Rightarrow> string list" where
  "libraryDirectoryFlags env dir argument =
     (case getLibraryAbsolutePath env argument dir of
        None \<Rightarrow> []
      | Some absolutePath \<Rightarrow>
          if underBuildDir env absolutePath
          then [getLibraryDirectoryFlag env (getRecompiledFile env absolutePath)]
          else [])"

text \<open>
  Lines 515-556, the part for a command that is no archive command: the command and the
  prerequisites of the rule (\<^verbatim>\<open>dependencies\<close>, which the lambda extends) after it.
\<close>

definition transformNonArchive ::
  "printer_env \<Rightarrow> bool \<Rightarrow> bool \<Rightarrow> string list \<Rightarrow> LinkCommand \<Rightarrow>
   LinkCommand \<times> string list" where
  "transformNonArchive env transformExeToLib isExecutable dependencies c =
     (let c1 = (if isExecutable \<and> \<not> transformExeToLib
                then forEachArgument transformCompilerFlagsToLinkerFlags
                       (setLinker c (getLd env))
                else setLinker c (bundledLinkerFor env (linker c)));
          c2 = forEachArgument (\<lambda>argument. removeSonameFlag (removeScriptFlag argument)) c1;
          libraryDirectoriesFlags =
            concat (map (libraryDirectoryFlags env (directory c2)) (getCommandLine c2));
          c3 = addFlagsToBegin c2 libraryDirectoriesFlags;
          (c4, dependencies') =
            (if \<not> isExecutable \<or> transformExeToLib
             then (let d1 = addFlagsToBegin c3
                              [''-Wl,--allow-multiple-definition'', coverageLinkFlags env,
                               sanitizerLinkFlags env, ''-Wl,--whole-archive''];
                       (d2, deps) =
                         (if isSharedLibraryCommand env d1
                          then (addFlagToEnd d1 STUB_OBJECT_FILES,
                                dependencies @ [STUB_OBJECT_FILES])
                          else (d1, dependencies));
                       d3 = addFlagToEnd d2 ''-Wl,--no-whole-archive''
                   in (setOptimizationLevel env d3 OPTIMIZATION_FLAG, deps))
             else (c3, dependencies));
          c5 = addFlagToBegin c4 ''$(LDFLAGS)'';
          c6 = (if isExecutable
                then addFlagToBegin c5 (if transformExeToLib then SHARED_FLAG else RELOCATE_FLAG)
                else c5)
      in (c6, dependencies'))"

text \<open>
  The lambda of lines 507-572 on one link command: the action of the rule, and the
  prerequisites after it. The command it ends with is \<open>transformedCommand\<close>.
\<close>

definition transformedCommand ::
  "printer_env \<Rightarrow> bool \<Rightarrow> bool \<Rightarrow> path list \<Rightarrow> (path \<rightharpoonup> path) \<Rightarrow> path \<Rightarrow>
   string list \<Rightarrow> LinkCommand \<Rightarrow> error + LinkCommand \<times> string list" where
  "transformedCommand env transformExeToLib isExecutable files fileMapping recompiledFile
     dependencies linkCommand =
     (case substituteInputs files fileMapping
             (setOutput (eraseFlag linkCommand STATIC_FLAG) recompiledFile) of
        Inl e \<Rightarrow> Inl e
      | Inr c \<Rightarrow>
          (let (c', dependencies') =
                 (if \<not> isArchiveCommand env c
                  then transformNonArchive env transformExeToLib isExecutable dependencies c
                  else (c, dependencies));
               c'' = setLinker c' (getRelativePathForLinker env (linker c'))
           in Inr (forEachArgument (tryChangeToRelativePath (getRelativePath env)) c'',
                   dependencies')))"

definition linkAction ::
  "printer_env \<Rightarrow> bool \<Rightarrow> bool \<Rightarrow> path list \<Rightarrow> (path \<rightharpoonup> path) \<Rightarrow> path \<Rightarrow>
   string list \<Rightarrow> LinkCommand \<Rightarrow> error + string \<times> string list" where
  "linkAction env transformExeToLib isExecutable files fileMapping recompiledFile
     dependencies linkCommand =
     (case transformedCommand env transformExeToLib isExecutable files fileMapping
             recompiledFile dependencies linkCommand of
        Inl e \<Rightarrow> Inl e
      | Inr (c, dependencies') \<Rightarrow>
          (let relativeDir = getRelativePath env (directory c);
               commandText = toStringWithChangingDirectoryToNew env c relativeDir
           in if isExecutable \<and> \<not> transformExeToLib
              then Inr (commandText @ '' && objcopy --redefine-sym main=main__ ''
                          @ outputArgument c,
                        dependencies')
              else Inr (commandText, dependencies')))"

text \<open>\<^verbatim>\<open>CollectionUtils::transform\<close> over the commands of the unit, lines 506-507.\<close>

fun linkActions ::
  "(string list \<Rightarrow> LinkCommand \<Rightarrow> error + string \<times> string list) \<Rightarrow> string list \<Rightarrow>
   LinkCommand list \<Rightarrow> error + string list \<times> string list" where
  "linkActions f dependencies [] = Inr ([], dependencies)"
| "linkActions f dependencies (c # cs) =
     (case f dependencies c of
        Inl e \<Rightarrow> Inl e
      | Inr (action, dependencies') \<Rightarrow>
          (case linkActions f dependencies' cs of
             Inl e \<Rightarrow> Inl e
           | Inr (acts, dependencies'') \<Rightarrow> Inr (action # acts, dependencies'')))"

text \<open>
  \<^verbatim>\<open>addLinkTargetRecursively\<close> after the recursive calls, lines 484-602. The file set
  of line 484 keeps one copy of each output, here in the order of first occurrence.
\<close>

definition linkUnit ::
  "printer_env \<Rightarrow> string \<Rightarrow> bool \<Rightarrow> printer_state \<Rightarrow> path \<Rightarrow> bool \<Rightarrow> LinkUnitInfo \<Rightarrow>
   BuildResultType \<Rightarrow> (path \<rightharpoonup> path) \<Rightarrow> BuildResult list \<Rightarrow>
   error + BuildResult \<times> printer_state" where
  "linkUnit env suffixForParentOfStubs transformExeToLib st unitFile hasParent linkUnitInfo
     unitType fileMapping unitBuildResults =
     (let dependenciesAbsolutePaths = remdups (map br_output unitBuildResults);
          dependencies = map (getRelativePath env) dependenciesAbsolutePaths;
          isExecutable = \<not> isLibraryFile env unitFile;
          recompiled0 = getRecompiledFile env (lu_getOutput linkUnitInfo);
          recompiled1 =
            (if isExecutable \<and> \<not> transformExeToLib
             then (if isObjectFile env recompiled0 then recompiled0
                   else addExtension env recompiled0 ''.o'')
             else if isSharedLibraryFile env unitFile \<or> isExecutable
             then getSharedLibrary env recompiled0
             else recompiled0);
          recompiledFile = applySuffix env recompiled1 unitType suffixForParentOfStubs;
          st1 = (if isExecutable \<or> isSharedLibraryFile env unitFile
                 then st\<lparr>sharedOutput := Some recompiledFile\<rparr> else st)
      in case linkActions
                (linkAction env transformExeToLib isExecutable (lu_files linkUnitInfo)
                   fileMapping recompiledFile)
                dependencies (lu_commands linkUnitInfo) of
           Inl e \<Rightarrow> Inl e
         | Inr (commandActions, dependencies') \<Rightarrow>
             (let recompiledFileRelative = getRelativePath env recompiledFile;
                  removeAction = ''rm -f '' @ recompiledFileRelative;
                  st2 = pushArtifact
                          (declareTarget st1 recompiledFileRelative dependencies'
                             (removeAction # commandActions))
                          recompiledFileRelative;
                  st3 =
                    (if \<not> hasParent \<and> isStaticLibraryFile env unitFile
                     then (let shared = applySuffix env
                                          (getSharedLibrary env (lu_getOutput linkUnitInfo))
                                          unitType suffixForParentOfStubs;
                               sharedOutputRelative = getRelativePath env shared;
                               sharedLinkCommandLine =
                                 [getRelativePathForLinker env (primaryCompiler env),
                                  ''$(LDFLAGS)'', SHARED_FLAG, coverageLinkFlags env,
                                  sanitizerLinkFlags env, ''-o'', sharedOutputRelative,
                                  ''-Wl,--whole-archive'', recompiledFileRelative,
                                  ''-Wl,--allow-multiple-definition'', STUB_OBJECT_FILES,
                                  ''-Wl,--no-whole-archive'']
                           in pushArtifact
                                (declareTarget (st2\<lparr>sharedOutput := Some shared\<rparr>)
                                   sharedOutputRelative
                                   [recompiledFileRelative, STUB_OBJECT_FILES]
                                   [toStringWithChangingDirectory env sharedLinkCommandLine
                                      (getRelativePath env (buildDirectory env))])
                                sharedOutputRelative)
                     else st2);
                  buildResult = \<lparr>br_output = recompiledFile, br_type = unitType\<rparr>
              in Inr (buildResult,
                      st3\<lparr>buildResults := (buildResults st3)(unitFile \<mapsto> buildResult)\<rparr>)))"

text \<open>
  The loop of lines 475-482 over the files of the unit: \<open>visit\<close> is the recursive call;
  the accumulator is \<^verbatim>\<open>unitType\<close>, \<^verbatim>\<open>fileMapping\<close> and the results so far. \<open>None\<close>
  is a call that does not return.
\<close>

fun dependenciesLoop ::
  "(printer_state \<Rightarrow> path \<Rightarrow> (error + BuildResult \<times> printer_state) option) \<Rightarrow>
   printer_state \<Rightarrow> BuildResultType \<times> (path \<rightharpoonup> path) \<times> BuildResult list \<Rightarrow> path list \<Rightarrow>
   (error + (BuildResultType \<times> (path \<rightharpoonup> path) \<times> BuildResult list) \<times> printer_state) option"
  where
  "dependenciesLoop visit st acc [] = Some (Inr (acc, st))"
| "dependenciesLoop visit st (unitType, fileMapping, results) (dependency # rest) =
     (case visit st dependency of
        None \<Rightarrow> None
      | Some (Inl e) \<Rightarrow> Some (Inl e)
      | Some (Inr (buildResult, st')) \<Rightarrow>
          dependenciesLoop visit st'
            (typeUnion unitType (br_type buildResult),
             fileMapping(dependency \<mapsto> br_output buildResult),
             results @ [buildResult])
            rest)"

text \<open>
  \<^verbatim>\<open>NativeMakefilePrinter::addLinkTargetRecursively\<close>, lines 459-603. The first
  argument bounds the depth of the recursion; \<open>None\<close> says that the bound was reached,
  which is how a call that never returns (a cycle among the link units) shows.
\<close>

primrec addLinkTargetRecursively ::
  "nat \<Rightarrow> printer_env \<Rightarrow> string \<Rightarrow> bool \<Rightarrow> printer_state \<Rightarrow> path \<Rightarrow> bool \<Rightarrow>
   (error + BuildResult \<times> printer_state) option" where
  "addLinkTargetRecursively 0 env suffixForParentOfStubs transformExeToLib st unitFile
     hasParent = None"
| "addLinkTargetRecursively (Suc depth) env suffixForParentOfStubs transformExeToLib st
     unitFile hasParent =
     (case buildResults st unitFile of
        Some buildResult \<Rightarrow> Some (Inr (buildResult, st))
      | None \<Rightarrow>
          if isObjectFile env unitFile then
            (case addObjectFile env st unitFile suffixForParentOfStubs of
               Inl e \<Rightarrow> Some (Inl e)
             | Inr (buildResult, st') \<Rightarrow>
                 Some (Inr (buildResult,
                            st'\<lparr>buildResults := (buildResults st')(unitFile \<mapsto> buildResult)\<rparr>)))
          else
            (case getClientLinkUnitInfo env unitFile of
               None \<Rightarrow> Some (Inl UnknownUnit)
             | Some linkUnitInfo \<Rightarrow>
                 (case dependenciesLoop
                         (\<lambda>st' dependency.
                            addLinkTargetRecursively depth env suffixForParentOfStubs
                              transformExeToLib st' dependency True)
                         st (NONE, Map.empty, []) (lu_files linkUnitInfo) of
                    None \<Rightarrow> None
                  | Some (Inl e) \<Rightarrow> Some (Inl e)
                  | Some (Inr ((unitType, fileMapping, unitBuildResults), st')) \<Rightarrow>
                      Some (linkUnit env suffixForParentOfStubs transformExeToLib st'
                              unitFile hasParent linkUnitInfo unitType fileMapping
                              unitBuildResults))))"

text \<open>The state of a printer that has not visited any unit.\<close>

definition emptyPrinter :: printer_state where
  "emptyPrinter = \<lparr>buildResults = Map.empty, sharedOutput = None, artifacts = [], rules = []\<rparr>"

subsection \<open>The link-dependency graph\<close>

text \<open>
  \<open>reaches env u v\<close>: the unit \<open>v\<close> is \<open>u\<close> itself or is reached from \<open>u\<close> along the files of
  link units; an object file has no files of its own.
\<close>

inductive reaches :: "printer_env \<Rightarrow> path \<Rightarrow> path \<Rightarrow> bool" for env where
  refl: "reaches env u u"
| step: "\<not> isObjectFile env u \<Longrightarrow> getClientLinkUnitInfo env u = Some linkUnitInfo \<Longrightarrow>
         dependency \<in> set (lu_files linkUnitInfo) \<Longrightarrow> reaches env dependency v \<Longrightarrow>
         reaches env u v"

definition reachableObjectFiles :: "printer_env \<Rightarrow> path \<Rightarrow> path set" where
  "reachableObjectFiles env u = {v. reaches env u v \<and> isObjectFile env v}"

text \<open>The tag an object file contributes: \<open>ALL_STUBS\<close> when its source is in the stub
  set, \<open>NO_STUBS\<close> otherwise.\<close>

definition objectFileType :: "printer_env \<Rightarrow> path \<Rightarrow> BuildResultType" where
  "objectFileType env objectFile =
     (case getClientCompilationUnitInfo env objectFile of
        Some compilationUnitInfo \<Rightarrow>
          if oi_getSourcePath compilationUnitInfo \<in> stubSources env then ALL_STUBS
          else NO_STUBS
      | None \<Rightarrow> NO_STUBS)"

text \<open>
  The union of a set of tags in the monoid: \<open>NONE\<close> for the empty set, and otherwise
  decided by whether a tag with stubs and whether a tag without stubs occurs.
\<close>

definition typeUnionOver :: "BuildResultType set \<Rightarrow> BuildResultType" where
  "typeUnionOver tags =
     (let withoutStubs = (NO_STUBS \<in> tags \<or> MIXED \<in> tags);
          withStubs = (ALL_STUBS \<in> tags \<or> MIXED \<in> tags)
      in if withoutStubs \<and> withStubs then MIXED
         else if withoutStubs then NO_STUBS
         else if withStubs then ALL_STUBS
         else NONE)"

text \<open>Every memoised result carries the union of the tags of the object files that its
  unit reaches.\<close>

definition memoSound :: "printer_env \<Rightarrow> printer_state \<Rightarrow> bool" where
  "memoSound env st =
     (\<forall>u buildResult. buildResults st u = Some buildResult \<longrightarrow>
        br_type buildResult = typeUnionOver (objectFileType env ` reachableObjectFiles env u))"

section \<open>Example inputs\<close>

text \<open>
  A small translation unit for the examples below; a clang type is identified with its
  spelling, and every type is canonical. It declares
  \<^verbatim>\<open>struct S { int ( *f)(char); }\<close> in the project, an anonymous structure and its
  typedef \<^verbatim>\<open>T\<close> with one canonical type, and \<^verbatim>\<open>enum E { A = -1, B = 2 }\<close> in a
  header of the test-runner library. Two more declarations arrive under the identity of
  that canonical type: \<^verbatim>\<open>U\<close>, which differs from \<^verbatim>\<open>T\<close> in the name only, and the
  unnamed \<^verbatim>\<open>W\<close>, whose alignment is 8 bytes where that of \<^verbatim>\<open>T\<close> is 4.
\<close>

definition fieldF :: "string FieldDecl" where
  "fieldF =
     \<lparr>fd_getNameAsString = ''f'', fd_getType = ''int (*)(char)'',
      fd_getFunctionType = Some \<lparr>getReturnType = ''int'', getParamTypes = Some [''char'']\<rparr>,
      fd_pointeeFunctionType = None,
      fd_getTypeSize = 64, fd_getFieldOffset = 0\<rparr>"

definition structS :: "string RecordDecl" where
  "structS =
     \<lparr>rd_getNameAsString = ''S'', rd_getTypeDeclType = ''struct S'',
      rd_getTagKind = TTK_Struct,
      rd_spellingFilename = ''/project/s.h'', rd_filename = ''/project/s.h'',
      rd_mainFile = ''/project/s.c'', rd_getSourceText = ''struct S { int (*f)(char); }'',
      rd_fields = [fieldF], rd_getTypeSize = 64, rd_getTypeAlign = 64\<rparr>"

definition structAnonymous :: "string RecordDecl" where
  "structAnonymous =
     \<lparr>rd_getNameAsString = [], rd_getTypeDeclType = ''struct (anonymous)'',
      rd_getTagKind = TTK_Struct,
      rd_spellingFilename = ''/project/t.h'', rd_filename = ''/project/t.h'',
      rd_mainFile = ''/project/s.c'', rd_getSourceText = ''struct { int x; }'',
      rd_fields = [], rd_getTypeSize = 32, rd_getTypeAlign = 32\<rparr>"

definition structT :: "string RecordDecl" where
  "structT = structAnonymous\<lparr>rd_getNameAsString := ''T''\<rparr>"

definition structU :: "string RecordDecl" where
  "structU = structAnonymous\<lparr>rd_getNameAsString := ''U''\<rparr>"

definition structW :: "string RecordDecl" where
  "structW = structAnonymous\<lparr>rd_getTypeAlign := 64\<rparr>"

definition enumE :: "string EnumDecl" where
  "enumE =
     \<lparr>ed_getNameAsString = ''E'', ed_getTypeDeclType = ''enum E'',
      ed_filename = ''/utbot/gtest/googletest/include/gtest/gtest.h'',
      ed_promotionTypeSize = 32, ed_declContexts = [OtherDeclContext],
      ed_enumerators = [(''A'', -1), (''B'', 2)],
      ed_getSourceText = ''enum E { A = -1, B = 2 }'', ed_getTypeAlign = 32\<rparr>"

definition exampleTagDecl :: "string \<Rightarrow> string TagDecl option" where
  "exampleTagDecl ty =
     (if ty = ''struct S'' then Some (IsRecordDecl structS)
      else if ty = ''struct (anonymous)'' then Some (IsRecordDecl structAnonymous)
      else if ty = ''T'' then Some (IsRecordDecl structT)
      else if ty = ''U'' then Some (IsRecordDecl structU)
      else if ty = ''W'' then Some (IsRecordDecl structW)
      else if ty = ''enum E'' then Some (IsEnumDecl enumE)
      else None)"

definition exampleId :: "string \<Rightarrow> type_id" where
  "exampleId ty =
     (if ty = ''struct S'' then 1
      else if ty = ''struct (anonymous)'' then 2
      else if ty = ''enum E'' then 3
      else 0)"

definition exampleEnv :: "string resolver_env" where
  "exampleEnv =
     \<lparr>getCanonicalType = (\<lambda>ty. ty), getAsString = (\<lambda>ty. ty),
      getNonReferenceType = (\<lambda>ty. ty), getUnqualifiedType = (\<lambda>ty. ty),
      getAsTagDecl = exampleTagDecl,
      returnedStructure = (\<lambda>ty. None),
      getIdFromCanonicalType = exampleId,
      isPointerToFunction = (\<lambda>ty. canonicalType ty = ''int (*)(char)''),
      isArrayOfPointersToFunction = (\<lambda>ty. False),
      typeName = canonicalType,
      getCCJsonFileFullPath = (\<lambda>file root. file),
      isGtest = (\<lambda>file. startsWith file ''/utbot/gtest/''),
      buildRootPath = ''/project/build'',
      isMaxVerbosity = False,
      structsDeclared = Map.empty\<rparr>"

section \<open>Example project\<close>

text \<open>
  A project for the examples of the printer: the objects \<^verbatim>\<open>a.o\<close> and \<^verbatim>\<open>b.o\<close>, built
  from \<^verbatim>\<open>a.c\<close> and from the stubbed \<^verbatim>\<open>b.c\<close>; the static library \<^verbatim>\<open>libroot.a\<close> of
  both; and the executable \<^verbatim>\<open>app\<close>, linked from \<^verbatim>\<open>a.o\<close> by
  \<^verbatim>\<open>gcc a.o -o app -Wl,-z,now\<close>. The helpers are simple instances of the parameters.
\<close>

definition hasExtension :: "path \<Rightarrow> string \<Rightarrow> bool" where
  "hasExtension file ext =
     (length ext \<le> length file \<and> drop (length file - length ext) file = ext)"

definition objectInfo :: "path \<Rightarrow> path \<Rightarrow> ObjectFileInfo" where
  "objectInfo source out =
     \<lparr>oi_getSourcePath = source, oi_getOutputFile = out,
      oi_commandLine = [''gcc'', ''-c'', source, ''-o'', out],
      oi_getDirectory = ''/project/build''\<rparr>"

definition archiveCommand :: LinkCommand where
  "archiveCommand =
     \<lparr>linker = ''/usr/bin/ar'', beforeOutput = [''rcs''],
      outputArgument = ''/project/build/libroot.a'',
      afterOutput = [''/project/build/a.o'', ''/project/build/b.o''],
      directory = ''/project/build''\<rparr>"

definition appCommand :: LinkCommand where
  "appCommand =
     \<lparr>linker = ''/usr/bin/gcc'', beforeOutput = [''/project/build/a.o'', ''-o''],
      outputArgument = ''/project/build/app'',
      afterOutput = [''-Wl,-z,now''],
      directory = ''/project/build''\<rparr>"

definition exampleLinkUnit :: "path \<Rightarrow> LinkUnitInfo option" where
  "exampleLinkUnit unitFile =
     (if unitFile = ''/project/build/libroot.a''
      then Some \<lparr>lu_files = [''/project/build/a.o'', ''/project/build/b.o''],
                 lu_commands = [archiveCommand],
                 lu_getOutput = ''/project/build/libroot.a''\<rparr>
      else if unitFile = ''/project/build/app''
      then Some \<lparr>lu_files = [''/project/build/a.o''],
                 lu_commands = [appCommand],
                 lu_getOutput = ''/project/build/app''\<rparr>
      else None)"

definition exampleCompilationUnit :: "path \<Rightarrow> ObjectFileInfo option" where
  "exampleCompilationUnit objectFile =
     (if objectFile = ''/project/build/a.o''
      then Some (objectInfo ''/project/a.c'' ''/project/build/a.o'')
      else if objectFile = ''/project/build/b.o''
      then Some (objectInfo ''/project/b.c'' ''/project/build/b.o'')
      else None)"

definition exampleProject :: printer_env where
  "exampleProject =
     \<lparr>getClientLinkUnitInfo = exampleLinkUnit,
      getClientCompilationUnitInfo = exampleCompilationUnit,
      stubSources = {''/project/b.c''},
      isObjectFile = (\<lambda>file. hasExtension file ''.o''),
      isLibraryFile = (\<lambda>file. hasExtension file ''.a'' \<or> hasExtension file ''.so''),
      isSharedLibraryFile = (\<lambda>file. hasExtension file ''.so''),
      isStaticLibraryFile = (\<lambda>file. hasExtension file ''.a''),
      isCXXFile = (\<lambda>file. hasExtension file ''.cpp''),
      getRecompiledFile = (\<lambda>file. ''/project/utbot'' @ drop 8 file),
      sourcePathToStubPath = (\<lambda>file. ''/project/stubs'' @ drop 8 file),
      getWrapperFilePath = (\<lambda>file. ''/project/wrapper'' @ drop 8 file),
      addExtension = (\<lambda>file ext. file @ ext),
      addPrefix = (\<lambda>file prefix. file),
      removeSharedLibraryVersion = (\<lambda>file. file),
      getLd = ''/usr/bin/ld'',
      underBuildDir = (\<lambda>file. startsWith file ''/project/build''),
      bundledLinkerFor = (\<lambda>file. ''/utbot/bin/gcc''),
      applySuffix = (\<lambda>file unitType suffix. file),
      getLibraryAbsolutePath = (\<lambda>argument dir. None),
      getLibraryDirectoryFlag = (\<lambda>dir. ''-L'' @ dir),
      getRelativePath = relativeTo ''/project'',
      getRelativePathForLinker = (\<lambda>file. file),
      getDependencyFile = (\<lambda>file. ''utbot/dependencies'' @ drop 8 file @ ''.d''),
      isArchiveCommand = (\<lambda>c. hasExtension (linker c) ''/ar''),
      isSharedLibraryCommand = (\<lambda>c. SHARED_FLAG \<in> set (getCommandLine c)),
      setOptimizationLevel = addFlagToBegin,
      toStringWithChangingDirectoryToNew =
        (\<lambda>c dir. ''cd '' @ dir @ '' && '' @ joinWith (getCommandLine c) '' ''),
      toStringWithChangingDirectory =
        (\<lambda>line dir. ''cd '' @ dir @ '' && '' @ joinWith line '' ''),
      compileActions = (\<lambda>source out info. []),
      primaryCompiler = ''/usr/bin/gcc'',
      coverageLinkFlags = ''--coverage'',
      sanitizerLinkFlags = ''-fsanitize=address'',
      buildDirectory = ''/project/utbot''\<rparr>"

text \<open>A rank that falls along the files of the example's link units.\<close>

definition exampleRank :: "path \<Rightarrow> nat" where
  "exampleRank unitFile = (if hasExtension unitFile ''.o'' then 0 else 1)"

section \<open>Example entries\<close>

text \<open>A registry entry of the shared shape, with a chosen display name.\<close>

definition entryNamed :: "string \<Rightarrow> TypeInfo" where
  "entryNamed nm =
     \<lparr>name = nm, filePath = ''/project/t.h'', definitionText = [],
      sizeInBytes = 4, alignment = 4\<rparr>"

section \<open>Facts about the helpers\<close>

lemma splitAll_nonempty: "splitAll s d \<noteq> []"
  by (induction s) (auto split: list.splits)

lemma splitAll_no_delim: "t \<in> set (splitAll s d) \<Longrightarrow> d \<notin> set t"
  by (induction s arbitrary: t) (auto split: if_splits list.splits)

lemma split_no_delim: "t \<in> set (split s d) \<Longrightarrow> d \<notin> set t"
  by (auto simp: split_def splitAll_no_delim split: if_splits)

lemma splitAll_append_delim:
  "d \<notin> set x \<Longrightarrow> splitAll (x @ d # rest) d = x # splitAll rest d"
  by (induction x) auto

lemma splitAll_no_delim_id: "d \<notin> set x \<Longrightarrow> splitAll x d = [x]"
  by (induction x) auto

lemma splitAll_joinWith:
  "xs \<noteq> [] \<Longrightarrow> \<forall>t \<in> set xs. d \<notin> set t \<Longrightarrow> splitAll (joinWith xs [d]) d = xs"
proof (induction xs "[d]" rule: joinWith.induct)
  case 1
  then show ?case by simp
next
  case (2 x)
  then show ?case by (simp add: splitAll_no_delim_id)
next
  case (3 x y ys)
  then show ?case by (simp add: splitAll_append_delim)
qed

lemma split_joinWith:
  assumes "\<forall>t \<in> set xs. d \<notin> set t" and "joinWith xs [d] \<noteq> []"
  shows "split (joinWith xs [d]) d = xs"
proof -
  from assms(2) have "xs \<noteq> []" by auto
  with assms show ?thesis by (simp add: split_def splitAll_joinWith)
qed

lemma sonameLoop_subset: "set (sonameLoop b xs) \<subseteq> set xs - {''-soname''}"
  by (induction b xs rule: sonameLoop.induct) auto

lemma sonameLoop_id: "''-soname'' \<notin> set xs \<Longrightarrow> sonameLoop False xs = xs"
  by (induction xs) auto

lemma removeSonameFlag_empty: "removeSonameFlag [] = []"
  by (simp add: removeSonameFlag_def split_def eraseIfWlOnly_def)

lemma removeLinkerFlag_empty: "removeLinkerFlag [] flag = []"
  by (simp add: removeLinkerFlag_def split_def erase_if_def)

lemma removeSonameFlag_twice: "removeSonameFlag (removeSonameFlag a) = removeSonameFlag a"
proof -
  define r where "r = sonameLoop False (split a CHR '','')"
  have nodelim: "\<forall>t \<in> set r. CHR '','' \<notin> set t"
    using sonameLoop_subset [of False "split a CHR '',''"] split_no_delim
    unfolding r_def by blast
  have nosoname: "''-soname'' \<notin> set r"
    using sonameLoop_subset [of False "split a CHR '',''"] unfolding r_def by blast
  have fa: "removeSonameFlag a = eraseIfWlOnly (joinWith r '','')"
    by (simp add: removeSonameFlag_def r_def)
  show ?thesis
  proof (cases "joinWith r '','' = ''-Wl'' \<or> joinWith r '','' = []")
    case True
    then have "removeSonameFlag a = []"
      by (auto simp: fa eraseIfWlOnly_def)
    then show ?thesis by (simp add: removeSonameFlag_empty)
  next
    case False
    then have eq: "removeSonameFlag a = joinWith r '',''"
      by (simp add: fa eraseIfWlOnly_def)
    from False nodelim have "split (joinWith r '','') CHR '','' = r"
      by (intro split_joinWith) auto
    then have "removeSonameFlag (joinWith r '','') = eraseIfWlOnly (joinWith r '','')"
      by (simp add: removeSonameFlag_def sonameLoop_id [OF nosoname])
    with eq fa show ?thesis by simp
  qed
qed

lemma removeLinkerFlag_twice:
  "removeLinkerFlag (removeLinkerFlag a flag) flag = removeLinkerFlag a flag"
proof (cases "length (filter (\<lambda>option. startsWith option flag) (split a CHR '','')) = 0")
  case True
  then have "removeLinkerFlag a flag = a"
    by (simp add: removeLinkerFlag_def erase_if_def)
  then show ?thesis by simp
next
  case False
  define r where "r = filter (\<lambda>option. \<not> startsWith option flag) (split a CHR '','')"
  have nodelim: "\<forall>t \<in> set r. CHR '','' \<notin> set t"
    using split_no_delim unfolding r_def by auto
  have noflag: "filter (\<lambda>option. startsWith option flag) r = []"
    unfolding r_def by (induction "split a CHR '',''") auto
  from False have fa: "removeLinkerFlag a flag = eraseIfWlOnly (joinWith r '','')"
    by (simp add: removeLinkerFlag_def erase_if_def r_def)
  show ?thesis
  proof (cases "joinWith r '','' = ''-Wl'' \<or> joinWith r '','' = []")
    case True
    then have "removeLinkerFlag a flag = []"
      by (auto simp: fa eraseIfWlOnly_def)
    then show ?thesis by (simp add: removeLinkerFlag_empty)
  next
    case noWl: False
    then have eq: "removeLinkerFlag a flag = joinWith r '',''"
      by (simp add: fa eraseIfWlOnly_def)
    from noWl nodelim have "split (joinWith r '','') CHR '','' = r"
      by (intro split_joinWith) auto
    then have "removeLinkerFlag (joinWith r '','') flag = joinWith r '',''"
      by (simp add: removeLinkerFlag_def erase_if_def noflag)
    with eq show ?thesis by simp
  qed
qed

section \<open>Properties of the linker-flag normalisers\<close>

text \<open>
  C5. Scenario S2 of the specification: from the argument
  \<^verbatim>\<open>-Wl,-soname,libx.so.1,--version-script=v.lds,-rpath,/lib\<close>, removing the soname
  flag and then the script flag leaves exactly \<^verbatim>\<open>-Wl,-rpath,/lib\<close>.
\<close>

theorem C5_scenario_S2:
  "removeScriptFlag
     (removeSonameFlag ''-Wl,-soname,libx.so.1,--version-script=v.lds,-rpath,/lib'')
   = ''-Wl,-rpath,/lib''"
  by (simp add: removeScriptFlag_def removeLinkerFlag_def removeSonameFlag_def
      split_def erase_if_def startsWith_def eraseIfWlOnly_def)

text \<open>
  C6. Both normalisers are idempotent: for every argument string, applying
  \<^verbatim>\<open>removeScriptFlag\<close> twice gives what applying it once gives, and the same holds
  for \<^verbatim>\<open>removeSonameFlag\<close>.
\<close>

theorem C6_flag_removal_idempotent:
  "removeScriptFlag (removeScriptFlag argument) = removeScriptFlag argument \<and>
   removeSonameFlag (removeSonameFlag argument) = removeSonameFlag argument"
  by (simp add: removeScriptFlag_def removeLinkerFlag_twice removeSonameFlag_twice)

section \<open>Facts about the type resolver\<close>

lemma addInfo_candidate:
  "isCandidateToReplace ident someMap (name info) \<Longrightarrow>
   fst (addInfo ident someMap info) = someMap(ident \<mapsto> info)"
  by (auto simp: isCandidateToReplace_def addInfo_def Let_def split: option.splits)

text \<open>
  Structures and unions found in the header tree of the test-runner library are dropped:
  the state, log included, stays as it was.
\<close>

lemma resolveStruct_gtest:
  "isGtest env (getCCJsonFileFullPath env (rd_spellingFilename D) (buildRootPath env)) \<Longrightarrow>
   resolveStruct env st D nm = Inr st"
  by (simp add: resolveStruct_def Let_def)

lemma resolveUnion_gtest:
  "isGtest env (getCCJsonFileFullPath env (rd_filename D) (buildRootPath env)) \<Longrightarrow>
   resolveUnion env st D nm = st"
  by (simp add: resolveUnion_def Let_def)

text \<open>
  \<^verbatim>\<open>addInfo\<close> on its own, under an identity that already has an entry: an existing
  entry with an empty name is replaced by a new entry with a non-empty name; when both
  names are non-empty and equal the registry is unchanged; when both are non-empty and
  differ the registry is unchanged as well and the line of lines 56-58 is logged at
  warning level.
\<close>

lemma addInfo_policy:
  assumes "someMap ident = Some existing"
  shows "(name existing = [] \<and> name info \<noteq> [] \<longrightarrow>
            fst (addInfo ident someMap info) = someMap(ident \<mapsto> info)) \<and>
         (name existing \<noteq> [] \<and> name info = name existing \<longrightarrow>
            fst (addInfo ident someMap info) = someMap) \<and>
         (name existing \<noteq> [] \<and> name info \<noteq> [] \<and> name info \<noteq> name existing \<longrightarrow>
            fst (addInfo ident someMap info) = someMap \<and>
            (LOG_WARNING,
             ''Collision happened between: '' @ [CHR 0x27] @ name existing @ [CHR 0x27]
             @ '' and '' @ [CHR 0x27] @ name info @ [CHR 0x27])
            \<in> set (snd (addInfo ident someMap info)))"
  using assms by (auto simp: addInfo_def canBeReplaced_def Let_def)

lemma addInfo_policy_example:
  "fst (addInfo 2 [2 \<mapsto> entryNamed []] (entryNamed ''T'')) = [2 \<mapsto> entryNamed ''T''] \<and>
   fst (addInfo 2 [2 \<mapsto> entryNamed ''T''] (entryNamed ''T'')) = [2 \<mapsto> entryNamed ''T''] \<and>
   fst (addInfo 2 [2 \<mapsto> entryNamed ''T''] (entryNamed ''U'')) = [2 \<mapsto> entryNamed ''T''] \<and>
   (LOG_WARNING,
    ''Collision happened between: '' @ [CHR 0x27] @ ''T'' @ [CHR 0x27]
    @ '' and '' @ [CHR 0x27] @ ''U'' @ [CHR 0x27])
     \<in> set (snd (addInfo 2 [2 \<mapsto> entryNamed ''T''] (entryNamed ''U'')))"
  using addInfo_policy [of "[2 \<mapsto> entryNamed []]" 2 "entryNamed []" "entryNamed ''T''"]
        addInfo_policy [of "[2 \<mapsto> entryNamed ''T'']" 2 "entryNamed ''T''" "entryNamed ''T''"]
        addInfo_policy [of "[2 \<mapsto> entryNamed ''T'']" 2 "entryNamed ''T''" "entryNamed ''U''"]
  by (simp add: entryNamed_def)

text \<open>
  The three resolving functions test \<^verbatim>\<open>isCandidateToReplace\<close> first (lines 69-71,
  160-162, 204-206) and return at once when the identity has an entry with a non-empty
  name; where they go on to \<^verbatim>\<open>addInfo\<close>, the identity is fresh or its entry is unnamed
  and the new name is not, and \<^verbatim>\<open>addInfo\<close> logs no warning then.
\<close>

lemma resolveStruct_named_entry:
  "structs st (tagId env (IsRecordDecl D)) = Some existing \<Longrightarrow> name existing \<noteq> [] \<Longrightarrow>
   resolveStruct env st D nm = Inr st"
  by (simp add: resolveStruct_def tagId_def isCandidateToReplace_def canBeReplaced_def Let_def)

lemma resolveEnum_named_entry:
  "enums st (tagId env (IsEnumDecl EN)) = Some existing \<Longrightarrow> name existing \<noteq> [] \<Longrightarrow>
   resolveEnum env st EN nm = st"
  by (simp add: resolveEnum_def tagId_def isCandidateToReplace_def canBeReplaced_def Let_def)

lemma resolveUnion_named_entry:
  "unions st (tagId env (IsRecordDecl D)) = Some existing \<Longrightarrow> name existing \<noteq> [] \<Longrightarrow>
   resolveUnion env st D nm = st"
  by (simp add: resolveUnion_def tagId_def isCandidateToReplace_def canBeReplaced_def Let_def)

lemma addInfo_candidate_no_warning:
  "isCandidateToReplace ident someMap (name info) \<Longrightarrow>
   LOG_WARNING \<notin> fst ` set (snd (addInfo ident someMap info))"
  by (auto simp: isCandidateToReplace_def addInfo_def Let_def split: option.splits)

lemma resolveStruct_no_warning:
  assumes ok: "resolveStruct env st D nm = Inr st'"
  shows "\<exists>lines. logged st' = logged st @ lines \<and> LOG_WARNING \<notin> fst ` set lines"
proof (cases "isCandidateToReplace (tagId env (IsRecordDecl D)) (structs st) nm \<and>
    \<not> isGtest env (getCCJsonFileFullPath env (rd_spellingFilename D) (buildRootPath env))")
  case False
  with ok have "st' = st"
    by (auto simp: resolveStruct_def tagId_def Let_def split: if_splits)
  then show ?thesis by simp
next
  case True
  let ?file = "getCCJsonFileFullPath env (rd_spellingFilename D) (buildRootPath env)"
  let ?id = "tagId env (IsRecordDecl D)"
  have ideq: "getIdFromCanonicalType env (getCanonicalType env (rd_getTypeDeclType D)) = ?id"
    by (simp add: tagId_def)
  from ok True obtain flds funs td ss where
    loop: "structFieldsLoop env D
             ([], Map.empty, structsToDeclare st,
              ''Struct: '' @ nm @ nl @ tab @ ''File path: '' @ ?file)
             (rd_fields D) = Inr (flds, funs, td, ss)"
    by (auto simp: resolveStruct_def ideq Let_def split: sum.splits)
  define info where "info =
    \<lparr>name = nm, filePath = ?file, definitionText = rd_getSourceText D,
     sizeInBytes = getRecordSize D, alignment = getDeclAlignment (IsRecordDecl D),
     structFields = flds, functionFields = funs\<rparr>"
  have "isCandidateToReplace ?id (structs st) (name info)"
    using True by (simp add: info_def)
  then have quiet: "LOG_WARNING \<notin> fst ` set (snd (addInfo ?id (structs st) info))"
    by (rule addInfo_candidate_no_warning)
  from ok True loop have
    "\<exists>last. logged st' = logged st @ snd (addInfo ?id (structs st) info) @ [(LOG_DEBUG, last)]"
    by (auto simp: resolveStruct_def ideq Let_def info_def updateMaximumAlignment_def
        split: prod.splits)
  then obtain last where
    "logged st' = logged st @ (snd (addInfo ?id (structs st) info) @ [(LOG_DEBUG, last)])"
    by auto
  moreover from quiet
  have "LOG_WARNING \<notin> fst ` set (snd (addInfo ?id (structs st) info) @ [(LOG_DEBUG, last)])"
    by simp
  ultimately show ?thesis by blast
qed

lemma resolveEnum_no_warning:
  "\<exists>lines. logged (resolveEnum env st EN nm) = logged st @ lines \<and>
           LOG_WARNING \<notin> fst ` set lines"
proof (cases "isCandidateToReplace (tagId env (IsEnumDecl EN)) (enums st) nm")
  case False
  then have "resolveEnum env st EN nm = st" by (simp add: resolveEnum_def tagId_def Let_def)
  then show ?thesis by simp
next
  case True
  let ?id = "tagId env (IsEnumDecl EN)"
  have ideq: "getIdFromCanonicalType env (getCanonicalType env (ed_getTypeDeclType EN)) = ?id"
    by (simp add: tagId_def)
  define info where "info =
    \<lparr>name = nm,
     filePath = getCCJsonFileFullPath env (ed_filename EN) (buildRootPath env),
     definitionText = ed_getSourceText EN, sizeInBytes = ed_promotionTypeSize EN div 8,
     alignment = getDeclAlignment (IsEnumDecl EN), access = getAccess (ed_declContexts EN),
     valuesToEntries = fst (enumeratorsLoop (Map.empty, Map.empty) (ed_enumerators EN)),
     namesToEntries = snd (enumeratorsLoop (Map.empty, Map.empty) (ed_enumerators EN))\<rparr>"
  have "isCandidateToReplace ?id (enums st) (name info)"
    using True by (simp add: info_def)
  then have quiet: "LOG_WARNING \<notin> fst ` set (snd (addInfo ?id (enums st) info))"
    by (rule addInfo_candidate_no_warning)
  from True have
    "\<exists>l1 l2. logged (resolveEnum env st EN nm)
       = logged st @ snd (addInfo ?id (enums st) info) @ [(LOG_DEBUG, l1), (LOG_DEBUG, l2)]"
    by (auto simp: resolveEnum_def ideq Let_def info_def updateMaximumAlignment_def
        split: prod.splits)
  then obtain l1 l2 where
    "logged (resolveEnum env st EN nm)
       = logged st @ (snd (addInfo ?id (enums st) info) @ [(LOG_DEBUG, l1), (LOG_DEBUG, l2)])"
    by auto
  moreover from quiet
  have "LOG_WARNING \<notin> fst ` set (snd (addInfo ?id (enums st) info)
                                   @ [(LOG_DEBUG, l1), (LOG_DEBUG, l2)])"
    by simp
  ultimately show ?thesis by blast
qed

lemma resolveUnion_no_warning:
  "\<exists>lines. logged (resolveUnion env st D nm) = logged st @ lines \<and>
           LOG_WARNING \<notin> fst ` set lines"
proof (cases "isCandidateToReplace (tagId env (IsRecordDecl D)) (unions st) nm \<and>
    \<not> isGtest env (getCCJsonFileFullPath env (rd_filename D) (buildRootPath env))")
  case False
  then have "resolveUnion env st D nm = st"
    by (auto simp: resolveUnion_def tagId_def Let_def)
  then show ?thesis by simp
next
  case True
  let ?file = "getCCJsonFileFullPath env (rd_filename D) (buildRootPath env)"
  let ?id = "tagId env (IsRecordDecl D)"
  have ideq: "getIdFromCanonicalType env (getCanonicalType env (rd_getTypeDeclType D)) = ?id"
    by (simp add: tagId_def)
  define info where "info =
    \<lparr>name = nm, filePath = ?file, definitionText = rd_getSourceText D,
     sizeInBytes = getRecordSize D, alignment = getDeclAlignment (IsRecordDecl D),
     unionFields = fst (unionFieldsLoop env
        ([], ''Union: '' @ nm @ nl @ tab @ ''File path: '' @ ?file) (rd_fields D))\<rparr>"
  have "isCandidateToReplace ?id (unions st) (name info)"
    using True by (simp add: info_def)
  then have quiet: "LOG_WARNING \<notin> fst ` set (snd (addInfo ?id (unions st) info))"
    by (rule addInfo_candidate_no_warning)
  from True have
    "\<exists>last. logged (resolveUnion env st D nm)
       = logged st @ snd (addInfo ?id (unions st) info) @ [(LOG_DEBUG, last)]"
    by (auto simp: resolveUnion_def ideq Let_def info_def updateMaximumAlignment_def
        split: prod.splits)
  then obtain last where
    "logged (resolveUnion env st D nm)
       = logged st @ (snd (addInfo ?id (unions st) info) @ [(LOG_DEBUG, last)])"
    by auto
  moreover from quiet
  have "LOG_WARNING \<notin> fst ` set (snd (addInfo ?id (unions st) info) @ [(LOG_DEBUG, last)])"
    by simp
  ultimately show ?thesis by blast
qed

lemma resolve_no_warning:
  assumes "resolve env st ty = Inr st'"
  shows "\<exists>lines. logged st' = logged st @ lines \<and> LOG_WARNING \<notin> fst ` set lines"
proof (cases "getAsTagDecl env ty")
  case None
  with assms show ?thesis by (simp add: resolve_def)
next
  case (Some T)
  show ?thesis
  proof (cases T)
    case (IsEnumDecl EN)
    with Some assms have "st' = resolveEnum env st EN (ed_getNameAsString EN)"
      by (simp add: resolve_def)
    with resolveEnum_no_warning show ?thesis by simp
  next
    case (IsRecordDecl D)
    from Some IsRecordDecl assms obtain st1 where
      s: "(if rd_getTagKind D = TTK_Struct \<or> rd_getTagKind D = TTK_Class
           then resolveStruct env st D (rd_getNameAsString D) else Inr st) = Inr st1"
      and u: "st' = (if rd_getTagKind D = TTK_Union
                     then resolveUnion env st1 D (rd_getNameAsString D) else st1)"
      by (auto simp: resolve_def Let_def split: sum.splits if_splits)
    from s obtain l1 where l1: "logged st1 = logged st @ l1" "LOG_WARNING \<notin> fst ` set l1"
      using resolveStruct_no_warning [of env st D "rd_getNameAsString D" st1]
      by (auto split: if_splits)
    from u obtain l2 where l2: "logged st' = logged st1 @ l2" "LOG_WARNING \<notin> fst ` set l2"
      using resolveUnion_no_warning [of env st1 D "rd_getNameAsString D"]
      by (auto split: if_splits)
    from l1 l2 have "logged st' = logged st @ (l1 @ l2)" "LOG_WARNING \<notin> fst ` set (l1 @ l2)"
      by auto
    then show ?thesis by blast
  qed
qed

lemmas example_defs =
  exampleEnv_def exampleTagDecl_def exampleId_def structS_def structAnonymous_def structT_def
  structU_def structW_def enumE_def fieldF_def initialState_def

lemmas resolver_defs =
  resolve_def resolveStruct_def resolveEnum_def resolveUnion_def isCandidateToReplace_def
  canBeReplaced_def addInfo_def updateMaximumAlignment_def getDeclAlignment_def
  getRecordSize_def structField_def fieldTypeOf_def getFunctionPointerDeclaration_def
  getType_def scheduleDeclaration_def tagId_def

lemma example_T:
  "\<exists>st. resolveAll exampleEnv initialState [''T''] = Inr st \<and>
        map_option name (structs st 2) = Some ''T'' \<and> logged st \<noteq> [] \<and>
        LOG_WARNING \<notin> fst ` set (logged st)"
  by (simp add: example_defs resolver_defs startsWith_def Let_def)

lemma example_U:
  "getAsTagDecl exampleEnv ''U'' = Some (IsRecordDecl structU)"
  "rd_getTagKind structU = TTK_Struct"
  "tagId exampleEnv (IsRecordDecl structU) = 2"
  "rd_getNameAsString structU = ''U''"
  by (simp_all add: example_defs structU_def tagId_def)

section \<open>Properties of the type resolver\<close>

text \<open>
  C1. Insertion into a registry under an identity that already has an entry with a
  non-empty name, as \<^verbatim>\<open>resolve\<close> performs it for a structure or class, a union and an
  enumeration: the call returns the state it was given, so the first entry is kept, also
  when the name of the declaration is non-empty and differs from the name of the entry,
  and nothing is logged. No call of \<^verbatim>\<open>resolve\<close> adds a line at warning level to the log:
  the collision is not reported, the warning of \<^verbatim>\<open>addInfo\<close> (lines 56-58) is never
  reached from the resolving functions.
\<close>

theorem C1_collision_is_not_reported:
  "(\<forall>D e. getAsTagDecl env ty = Some (IsRecordDecl D) \<and>
          (rd_getTagKind D = TTK_Struct \<or> rd_getTagKind D = TTK_Class) \<and>
          structs st (tagId env (IsRecordDecl D)) = Some e \<and> name e \<noteq> []
          \<longrightarrow> resolve env st ty = Inr st) \<and>
   (\<forall>D e. getAsTagDecl env ty = Some (IsRecordDecl D) \<and> rd_getTagKind D = TTK_Union \<and>
          unions st (tagId env (IsRecordDecl D)) = Some e \<and> name e \<noteq> []
          \<longrightarrow> resolve env st ty = Inr st) \<and>
   (\<forall>EN e. getAsTagDecl env ty = Some (IsEnumDecl EN) \<and>
          enums st (tagId env (IsEnumDecl EN)) = Some e \<and> name e \<noteq> []
          \<longrightarrow> resolve env st ty = Inr st) \<and>
   (\<forall>st'. resolve env st ty = Inr st'
          \<longrightarrow> (\<exists>lines. logged st' = logged st @ lines \<and> LOG_WARNING \<notin> fst ` set lines))"
proof (intro conjI allI impI)
  fix D e
  assume "getAsTagDecl env ty = Some (IsRecordDecl D) \<and>
          (rd_getTagKind D = TTK_Struct \<or> rd_getTagKind D = TTK_Class) \<and>
          structs st (tagId env (IsRecordDecl D)) = Some e \<and> name e \<noteq> []"
  then show "resolve env st ty = Inr st"
    using resolveStruct_named_entry [of st env D e "rd_getNameAsString D"]
    by (auto simp: resolve_def)
next
  fix D e
  assume "getAsTagDecl env ty = Some (IsRecordDecl D) \<and> rd_getTagKind D = TTK_Union \<and>
          unions st (tagId env (IsRecordDecl D)) = Some e \<and> name e \<noteq> []"
  then show "resolve env st ty = Inr st"
    using resolveUnion_named_entry [of st env D e "rd_getNameAsString D"]
    by (auto simp: resolve_def)
next
  fix EN e
  assume "getAsTagDecl env ty = Some (IsEnumDecl EN) \<and>
          enums st (tagId env (IsEnumDecl EN)) = Some e \<and> name e \<noteq> []"
  then show "resolve env st ty = Inr st"
    using resolveEnum_named_entry [of st env EN e "ed_getNameAsString EN"]
    by (auto simp: resolve_def)
next
  fix st'
  assume "resolve env st ty = Inr st'"
  then show "\<exists>lines. logged st' = logged st @ lines \<and> LOG_WARNING \<notin> fst ` set lines"
    by (rule resolve_no_warning)
qed

theorem C1_collision_is_not_reported_witness:
  "\<exists>st. resolveAll exampleEnv initialState [''T''] = Inr st \<and>
        map_option name (structs st 2) = Some ''T'' \<and>
        getAsTagDecl exampleEnv ''U'' = Some (IsRecordDecl structU) \<and>
        tagId exampleEnv (IsRecordDecl structU) = 2 \<and>
        rd_getNameAsString structU = ''U'' \<and>
        resolve exampleEnv st ''U'' = Inr st \<and>
        resolveAll exampleEnv initialState [''T'', ''U''] = Inr st \<and>
        LOG_WARNING \<notin> fst ` set (logged st)"
proof -
  from example_T obtain st where
    t: "resolveAll exampleEnv initialState [''T''] = Inr st"
    and n: "map_option name (structs st 2) = Some ''T''"
    and l: "LOG_WARNING \<notin> fst ` set (logged st)" by blast
  from n obtain e where e: "structs st (tagId exampleEnv (IsRecordDecl structU)) = Some e"
    and ne: "name e \<noteq> []" by (auto simp: example_U)
  from C1_collision_is_not_reported [of exampleEnv "''U''" st, THEN conjunct1,
      rule_format, of structU e] example_U e ne
  have u: "resolve exampleEnv st ''U'' = Inr st" by simp
  from t have "resolve exampleEnv initialState ''T'' = Inr st"
    by (simp split: sum.splits)
  with u have "resolveAll exampleEnv initialState [''T'', ''U''] = Inr st" by simp
  with t n l u example_U show ?thesis by blast
qed

text \<open>
  C3. A tag declaration whose file lies in the header tree of the test-runner library
  should leave every registry as it was. For structures and unions it does
  (\<open>resolveStruct_gtest\<close>, \<open>resolveUnion_gtest\<close>); for an enumeration it does not:
  \<^verbatim>\<open>enum E\<close> of the example sits in such a header, and resolving it from the initial
  state registers it under its identity and raises the maximum alignment.
\<close>

theorem C3_enum_from_gtest_is_registered:
  "isGtest exampleEnv
     (getCCJsonFileFullPath exampleEnv (ed_filename enumE) (buildRootPath exampleEnv)) \<and>
   resolve exampleEnv initialState ''enum E''
     = Inr (resolveEnum exampleEnv initialState enumE ''E'') \<and>
   map_option name (enums (resolveEnum exampleEnv initialState enumE ''E'') 3) = Some ''E'' \<and>
   maximumAlignment (resolveEnum exampleEnv initialState enumE ''E'') = 4"
  by (simp add: resolve_def resolveEnum_def exampleEnv_def exampleTagDecl_def enumE_def
      initialState_def isCandidateToReplace_def exampleId_def addInfo_def
      updateMaximumAlignment_def getDeclAlignment_def startsWith_def Let_def
      split: prod.splits)

text \<open>
  C10. A type whose declaration is no tag declaration is resolved to nothing: the call
  returns the state it was given, with the three registries, the maximum alignment, the
  scheduled declarations and the log as they were.
\<close>

theorem C10_resolve_non_tag_noop:
  "getAsTagDecl env ty = None \<Longrightarrow> resolve env st ty = Inr st"
  by (simp add: resolve_def)

theorem C10_resolve_non_tag_noop_witness:
  "resolve exampleEnv initialState ''int'' = Inr initialState"
  using C10_resolve_non_tag_noop [of exampleEnv "''int''" initialState]
  by (simp add: exampleEnv_def exampleTagDecl_def)

section \<open>The registries and the maximum alignment; function fields\<close>

lemma paramLoop_types:
  "map fst (paramLoop env c ps) = map (\<lambda>p. getType env p p) ps"
  by (induction ps arbitrary: c) auto

lemma paramLoop_names:
  "map snd (paramLoop env c ps) =
   map (\<lambda>i. ''param'' @ to_string (c + 1 + int i)) [0..<length ps]"
proof (induction ps arbitrary: c)
  case Nil
  then show ?case by simp
next
  case (Cons p ps)
  have "[0..<length (p # ps)] = 0 # map Suc [0..<length ps]"
    by (simp add: upt_conv_Cons map_Suc_upt del: upt_Suc)
  with Cons.IH [of "c + 1"] show ?case
    by (simp add: comp_def algebra_simps del: upt_Suc)
qed

lemma structField_other:
  "structField env D (flds, funs, td, ss) F = Inr (flds', funs', td', ss') \<Longrightarrow>
   n \<noteq> fd_getNameAsString F \<Longrightarrow> funs' n = funs n"
  by (auto simp: structField_def Let_def split: if_splits option.splits sum.splits)

lemma structField_pointer:
  "structField env D (flds, funs, td, ss) F = Inr (flds', funs', td', ss') \<Longrightarrow>
   isPointerToFunction env (fieldTypeOf env F) \<Longrightarrow> fd_getFunctionType F = Some fType \<Longrightarrow>
   funs' (fd_getNameAsString F) =
     Some (getFunctionPointerDeclaration env fType (fd_getNameAsString F)
             (isArrayOfPointersToFunction env (fieldTypeOf env F)))"
  by (auto simp: structField_def Let_def split: if_splits option.splits sum.splits)

lemma structFieldsLoop_other:
  "structFieldsLoop env D (flds, funs, td, ss) Fs = Inr (flds', funs', td', ss') \<Longrightarrow>
   n \<notin> fd_getNameAsString ` set Fs \<Longrightarrow> funs' n = funs n"
proof (induction Fs arbitrary: flds funs td ss)
  case Nil
  then show ?case by simp
next
  case (Cons F Fs)
  from Cons.prems(1) obtain flds1 funs1 td1 ss1 where
    step: "structField env D (flds, funs, td, ss) F = Inr (flds1, funs1, td1, ss1)" and
    rest: "structFieldsLoop env D (flds1, funs1, td1, ss1) Fs = Inr (flds', funs', td', ss')"
    by (auto split: sum.splits)
  from Cons.prems(2) have "n \<noteq> fd_getNameAsString F" "n \<notin> fd_getNameAsString ` set Fs"
    by auto
  with structField_other [OF step] Cons.IH [OF rest] show ?case by simp
qed

lemma structFieldsLoop_pointer:
  "structFieldsLoop env D (flds, funs, td, ss) Fs = Inr (flds', funs', td', ss') \<Longrightarrow>
   F \<in> set Fs \<Longrightarrow>
   \<forall>G \<in> set Fs. fd_getNameAsString G = fd_getNameAsString F \<longrightarrow> G = F \<Longrightarrow>
   isPointerToFunction env (fieldTypeOf env F) \<Longrightarrow> fd_getFunctionType F = Some fType \<Longrightarrow>
   funs' (fd_getNameAsString F) =
     Some (getFunctionPointerDeclaration env fType (fd_getNameAsString F)
             (isArrayOfPointersToFunction env (fieldTypeOf env F)))"
proof (induction Fs arbitrary: flds funs td ss)
  case Nil
  then show ?case by simp
next
  case (Cons G Fs)
  from Cons.prems(1) obtain flds1 funs1 td1 ss1 where
    step: "structField env D (flds, funs, td, ss) G = Inr (flds1, funs1, td1, ss1)" and
    rest: "structFieldsLoop env D (flds1, funs1, td1, ss1) Fs = Inr (flds', funs', td', ss')"
    by (auto split: sum.splits)
  show ?case
  proof (cases "F \<in> set Fs")
    case True
    moreover from Cons.prems(3) have
      "\<forall>G \<in> set Fs. fd_getNameAsString G = fd_getNameAsString F \<longrightarrow> G = F" by simp
    ultimately show ?thesis
      using Cons.IH [OF rest] Cons.prems(4,5) by blast
  next
    case False
    with Cons.prems(2) have FG: "F = G" by simp
    from False Cons.prems(3) have "fd_getNameAsString F \<notin> fd_getNameAsString ` set Fs"
      by auto
    from structFieldsLoop_other [OF rest this]
      structField_pointer [OF step [folded FG] Cons.prems(4,5)]
    show ?thesis by simp
  qed
qed

lemma resolveStruct_inserted:
  assumes ok: "resolveStruct env st D nm = Inr st'"
    and cand: "isCandidateToReplace (tagId env (IsRecordDecl D)) (structs st) nm"
    and notg: "\<not> isGtest env (getCCJsonFileFullPath env (rd_spellingFilename D) (buildRootPath env))"
  shows "\<exists>flds funs td ss info.
           structFieldsLoop env D
             ([], Map.empty, structsToDeclare st,
              ''Struct: '' @ nm @ nl @ tab @ ''File path: ''
              @ getCCJsonFileFullPath env (rd_spellingFilename D) (buildRootPath env))
             (rd_fields D) = Inr (flds, funs, td, ss) \<and>
           name info = nm \<and> functionFields info = funs \<and> structFields info = flds \<and>
           alignment info = getDeclAlignment (IsRecordDecl D) \<and>
           structs st' = (structs st)(tagId env (IsRecordDecl D) \<mapsto> info) \<and>
           enums st' = enums st \<and> unions st' = unions st \<and>
           maximumAlignment st' = max (maximumAlignment st) (alignment info)"
proof -
  let ?file = "getCCJsonFileFullPath env (rd_spellingFilename D) (buildRootPath env)"
  let ?id = "tagId env (IsRecordDecl D)"
  have ideq: "getIdFromCanonicalType env (getCanonicalType env (rd_getTypeDeclType D)) = ?id"
    by (simp add: tagId_def)
  from ok cand notg obtain flds funs td ss where
    loop: "structFieldsLoop env D
             ([], Map.empty, structsToDeclare st,
              ''Struct: '' @ nm @ nl @ tab @ ''File path: '' @ ?file)
             (rd_fields D) = Inr (flds, funs, td, ss)"
    by (auto simp: resolveStruct_def ideq Let_def split: sum.splits)
  define info where "info =
    \<lparr>name = nm, filePath = ?file, definitionText = rd_getSourceText D,
     sizeInBytes = getRecordSize D, alignment = getDeclAlignment (IsRecordDecl D),
     structFields = flds, functionFields = funs\<rparr>"
  have "isCandidateToReplace ?id (structs st) (name info)"
    using cand by (simp add: info_def)
  then have add: "fst (addInfo ?id (structs st) info) = (structs st)(?id \<mapsto> info)"
    by (rule addInfo_candidate)
  from ok cand notg loop add have
    "structs st' = (structs st)(?id \<mapsto> info) \<and> enums st' = enums st \<and>
     unions st' = unions st \<and>
     maximumAlignment st' = max (maximumAlignment st) (alignment info)"
    by (auto simp: resolveStruct_def ideq Let_def info_def updateMaximumAlignment_def
        split: prod.splits)
  with loop show ?thesis
    by (intro exI [of _ flds] exI [of _ funs] exI [of _ td] exI [of _ ss] exI [of _ info])
       (simp add: info_def)
qed

















text \<open>
  C9. A field of a structure whose type is a pointer to function, and whose name no other
  field of the structure bears, gets a function descriptor in the entry registered for
  the structure: it carries the field's name and the return type of the function type;
  for a prototype its parameters are the parameter types in order, named
  \<^verbatim>\<open>param1\<close>, \<^verbatim>\<open>param2\<close>, ...; and its array flag says whether the field is an
  array of pointers to function, so it is false for a plain pointer. Scenario S6, a
  field of type \<^verbatim>\<open>int ( * )(char)\<close>, follows as the instance.
\<close>

theorem C9_function_pointer_field:
  assumes ok: "resolveStruct env st D nm = Inr st'"
    and cand: "isCandidateToReplace (tagId env (IsRecordDecl D)) (structs st) nm"
    and notg: "\<not> isGtest env
                  (getCCJsonFileFullPath env (rd_spellingFilename D) (buildRootPath env))"
    and F: "F \<in> set (rd_fields D)"
    and dist: "\<forall>G \<in> set (rd_fields D).
                 fd_getNameAsString G = fd_getNameAsString F \<longrightarrow> G = F"
    and PF: "isPointerToFunction env (fieldTypeOf env F)"
    and ft: "fd_getFunctionType F = Some fType"
  shows "\<exists>info d.
           structs st' (tagId env (IsRecordDecl D)) = Some info \<and>
           functionFields info (fd_getNameAsString F) = Some d \<and>
           functionName d = fd_getNameAsString F \<and>
           returnType d = \<lparr>canonicalType = getCanonicalType env (getReturnType fType),
                           usedType = getAsString env (getReturnType fType)\<rparr> \<and>
           (\<forall>ps. getParamTypes fType = Some ps \<longrightarrow>
              map fst (params d) = map (\<lambda>p. getType env p p) ps \<and>
              map snd (params d)
                = map (\<lambda>i. ''param'' @ to_string (int i + 1)) [0..<length ps]) \<and>
           isArray d = isArrayOfPointersToFunction env (fieldTypeOf env F)"
proof -
  from resolveStruct_inserted [OF ok cand notg] obtain flds funs td ss info where
    loop: "structFieldsLoop env D
             ([], Map.empty, structsToDeclare st,
              ''Struct: '' @ nm @ nl @ tab @ ''File path: ''
              @ getCCJsonFileFullPath env (rd_spellingFilename D) (buildRootPath env))
             (rd_fields D) = Inr (flds, funs, td, ss)"
    and ff: "functionFields info = funs"
    and reg: "structs st' = (structs st)(tagId env (IsRecordDecl D) \<mapsto> info)"
    by blast
  let ?d = "getFunctionPointerDeclaration env fType (fd_getNameAsString F)
              (isArrayOfPointersToFunction env (fieldTypeOf env F))"
  from structFieldsLoop_pointer [OF loop F dist PF ft]
  have d: "funs (fd_getNameAsString F) = Some ?d" .
  have params: "\<forall>ps. getParamTypes fType = Some ps \<longrightarrow>
              map fst (params ?d) = map (\<lambda>p. getType env p p) ps \<and>
              map snd (params ?d)
                = map (\<lambda>i. ''param'' @ to_string (int i + 1)) [0..<length ps]"
    using paramLoop_names [of env 0]
    by (auto simp: getFunctionPointerDeclaration_def paramLoop_types add.commute)
  show ?thesis
  proof (intro exI [of _ info] exI [of _ ?d] conjI)
    show "structs st' (tagId env (IsRecordDecl D)) = Some info" by (simp add: reg)
    show "functionFields info (fd_getNameAsString F) = Some ?d" by (simp add: ff d)
    show "\<forall>ps. getParamTypes fType = Some ps \<longrightarrow>
              map fst (params ?d) = map (\<lambda>p. getType env p p) ps \<and>
              map snd (params ?d)
                = map (\<lambda>i. ''param'' @ to_string (int i + 1)) [0..<length ps]"
      by (rule params)
  qed (simp_all add: getFunctionPointerDeclaration_def)
qed

lemma example_struct:
  "\<exists>st'. resolveStruct exampleEnv initialState structS ''S'' = Inr st'"
  by (simp add: example_defs resolver_defs startsWith_def Let_def)

theorem C9_function_pointer_field_witness:
  "\<exists>st' info.
     resolveStruct exampleEnv initialState structS ''S'' = Inr st' \<and>
     structs st' 1 = Some info \<and>
     functionFields info ''f'' =
       Some \<lparr>functionName = ''f'',
             returnType = \<lparr>canonicalType = ''int'', usedType = ''int''\<rparr>,
             params = [(\<lparr>canonicalType = ''char'', usedType = ''char''\<rparr>, ''param1'')],
             isArray = False\<rparr>"
proof -
  from example_struct obtain st' where
    ok: "resolveStruct exampleEnv initialState structS ''S'' = Inr st'" by blast
  have cand: "isCandidateToReplace (tagId exampleEnv (IsRecordDecl structS))
                (structs initialState) ''S''"
    by (simp add: isCandidateToReplace_def initialState_def)
  have notg: "\<not> isGtest exampleEnv
                  (getCCJsonFileFullPath exampleEnv (rd_spellingFilename structS)
                     (buildRootPath exampleEnv))"
    by (simp add: example_defs startsWith_def)
  have F: "fieldF \<in> set (rd_fields structS)" by (simp add: structS_def)
  have dist: "\<forall>G \<in> set (rd_fields structS).
                 fd_getNameAsString G = fd_getNameAsString fieldF \<longrightarrow> G = fieldF"
    by (simp add: structS_def)
  have PF: "isPointerToFunction exampleEnv (fieldTypeOf exampleEnv fieldF)"
    by (simp add: example_defs fieldTypeOf_def Let_def)
  have ft: "fd_getFunctionType fieldF
            = Some \<lparr>getReturnType = ''int'', getParamTypes = Some [''char'']\<rparr>"
    by (simp add: fieldF_def)
  from C9_function_pointer_field [OF ok cand notg F dist PF ft]
  obtain info d where
    reg: "structs st' (tagId exampleEnv (IsRecordDecl structS)) = Some info"
    and ff: "functionFields info (fd_getNameAsString fieldF) = Some d"
    and nm: "functionName d = fd_getNameAsString fieldF"
    and rt: "returnType d = \<lparr>canonicalType = getCanonicalType exampleEnv ''int'',
                              usedType = getAsString exampleEnv ''int''\<rparr>"
    and ps: "map fst (params d) = map (\<lambda>p. getType exampleEnv p p) [''char'']"
            "map snd (params d) = map (\<lambda>i. ''param'' @ to_string (int i + 1)) [0..<length [''char'']]"
    and arr: "isArray d = isArrayOfPointersToFunction exampleEnv (fieldTypeOf exampleEnv fieldF)"
    by auto
  from ps have "params d = [(\<lparr>canonicalType = ''char'', usedType = ''char''\<rparr>, ''param1'')]"
    by (cases "params d")
       (auto simp: example_defs getType_def to_string_def to_string_nat.simps digit_def)
  with nm rt arr have
    "d = \<lparr>functionName = ''f'',
          returnType = \<lparr>canonicalType = ''int'', usedType = ''int''\<rparr>,
          params = [(\<lparr>canonicalType = ''char'', usedType = ''char''\<rparr>, ''param1'')],
          isArray = False\<rparr>"
    by (cases d) (simp add: example_defs)
  with ok reg ff show ?thesis
    by (intro exI [of _ st'] exI [of _ info]) (simp add: example_defs tagId_def)
qed

section \<open>Relative paths in arguments\<close>

text \<open>
  C4, as the code has it. \<^verbatim>\<open>tryChangeToRelativePath\<close> hands an argument that begins
  with \<^verbatim>\<open>/\<close> to the relativisation, and of an argument \<^verbatim>\<open>-I<path>\<close> with a non-empty
  path it hands the path to the same relativisation; an argument that begins with
  \<^verbatim>\<open>-iquote\<close> or with \<^verbatim>\<open>-L\<close> is left as it is, whatever path it holds.
\<close>

theorem C4_relativised_arguments:
  "(startsWith argument ''/'' \<longrightarrow>
      tryChangeToRelativePath rel argument = rel argument) \<and>
   (p \<noteq> [] \<longrightarrow> tryChangeToRelativePath rel (''-I'' @ p) = ''-I'' @ rel p) \<and>
   tryChangeToRelativePath rel (''-iquote'' @ p) = ''-iquote'' @ p \<and>
   tryChangeToRelativePath rel (''-L'' @ p) = ''-L'' @ p"
proof (intro conjI impI)
  assume "p \<noteq> []"
  then show "tryChangeToRelativePath rel (''-I'' @ p) = ''-I'' @ rel p"
    by (cases p) (simp_all add: tryChangeToRelativePath_def startsWith_def)
qed (simp_all add: tryChangeToRelativePath_def startsWith_def)

theorem C4_relativised_arguments_witness:
  "tryChangeToRelativePath (relativeTo ''/project'') ''/project/build/a.o'' = ''build/a.o'' \<and>
   tryChangeToRelativePath (relativeTo ''/project'') ''-I/project/include'' = ''-Iinclude'' \<and>
   tryChangeToRelativePath (relativeTo ''/project'') ''-iquote/project/include''
     = ''-iquote/project/include'' \<and>
   tryChangeToRelativePath (relativeTo ''/project'') ''-L/project/build/lib''
     = ''-L/project/build/lib''"
  using C4_relativised_arguments
    [of "''/project/build/a.o''" "relativeTo ''/project''" "''/project/include''"]
    C4_relativised_arguments
    [of "''/project/build/a.o''" "relativeTo ''/project''" "''/project/build/lib''"]
  by (simp add: relativeTo_def startsWith_def)

text \<open>
  C4, as the specification has it, does not hold of arguments with the prefixes
  \<^verbatim>\<open>-L\<close> and \<^verbatim>\<open>-iquote\<close>: the directory \<^verbatim>\<open>/project/build/lib\<close> has the relative form
  \<^verbatim>\<open>build/lib\<close> under the root \<^verbatim>\<open>/project\<close>, yet inside a \<^verbatim>\<open>-L\<close> argument it is not
  relativised, and neither is the directory inside an \<^verbatim>\<open>-iquote\<close> argument.
\<close>

theorem C4_prefixed_paths_counterexample:
  "relativeTo ''/project'' ''/project/build/lib'' = ''build/lib'' \<and>
   tryChangeToRelativePath (relativeTo ''/project'') ''-L/project/build/lib''
     \<noteq> ''-L'' @ relativeTo ''/project'' ''/project/build/lib'' \<and>
   tryChangeToRelativePath (relativeTo ''/project'') ''-iquote/project/include''
     \<noteq> ''-iquote'' @ relativeTo ''/project'' ''/project/include''"
  by (simp add: tryChangeToRelativePath_def relativeTo_def startsWith_def)

section \<open>The native makefile printer\<close>

lemma typeUnion_NONE_right: "typeUnion t NONE = t"
  by (cases t) simp_all

lemma typeUnion_assoc: "typeUnion (typeUnion a b) c = typeUnion a (typeUnion b c)"
  by (cases a; cases b; cases c) simp_all

lemma typeUnion_commute: "typeUnion a b = typeUnion b a"
  by (cases a; cases b) simp_all

lemma typeUnion_MIXED: "typeUnion NO_STUBS ALL_STUBS = MIXED"
  by simp

lemma typeUnionOver_empty: "typeUnionOver {} = NONE"
  by (simp add: typeUnionOver_def)

lemma typeUnionOver_Un:
  "typeUnionOver (A \<union> B) = typeUnion (typeUnionOver A) (typeUnionOver B)"
  by (auto simp: typeUnionOver_def Let_def)

lemma typeUnionOver_single: "typeUnionOver {t} = t"
  by (cases t) (simp_all add: typeUnionOver_def)

lemma typeUnionOver_insert: "typeUnionOver (insert t T) = typeUnion t (typeUnionOver T)"
  using typeUnionOver_Un [of "{t}" T] by (simp add: typeUnionOver_single)

lemma typeUnionOver_set: "typeUnionOver (set ts) = foldr typeUnion ts NONE"
  by (induction ts) (simp_all add: typeUnionOver_empty typeUnionOver_insert)

lemma reaches_object: "isObjectFile env u \<Longrightarrow> reaches env u v \<Longrightarrow> v = u"
  by (erule reaches.cases) auto

lemma reachableObjectFiles_object:
  "isObjectFile env u \<Longrightarrow> reachableObjectFiles env u = {u}"
  by (auto simp: reachableObjectFiles_def reaches.refl dest: reaches_object)

lemma reachableObjectFiles_unit:
  assumes "\<not> isObjectFile env u" and "getClientLinkUnitInfo env u = Some linkUnitInfo"
  shows "reachableObjectFiles env u
         = (\<Union>dependency \<in> set (lu_files linkUnitInfo). reachableObjectFiles env dependency)"
proof (intro set_eqI iffI)
  fix v assume "v \<in> reachableObjectFiles env u"
  then have r: "reaches env u v" and o: "isObjectFile env v"
    by (simp_all add: reachableObjectFiles_def)
  from r assms o show "v \<in> (\<Union>d \<in> set (lu_files linkUnitInfo). reachableObjectFiles env d)"
    by (cases rule: reaches.cases) (auto simp: reachableObjectFiles_def)
next
  fix v assume "v \<in> (\<Union>d \<in> set (lu_files linkUnitInfo). reachableObjectFiles env d)"
  then obtain d where "d \<in> set (lu_files linkUnitInfo)" "reaches env d v" "isObjectFile env v"
    by (auto simp: reachableObjectFiles_def)
  with assms show "v \<in> reachableObjectFiles env u"
    by (auto simp: reachableObjectFiles_def intro: reaches.step)
qed

lemma addObjectFile_result:
  "addObjectFile env st u sfx = Inr (r, st') \<Longrightarrow>
   br_type r = objectFileType env u \<and> buildResults st' = buildResults st"
  by (auto simp: addObjectFile_def objectFileType_def addCompileTarget_def Let_def
      pushArtifact_def declareTarget_def split: option.splits if_splits)

lemma linkUnit_result:
  "linkUnit env sfx t st u hp info unitType fileMapping results = Inr (r, st') \<Longrightarrow>
   br_type r = unitType \<and> buildResults st' = (buildResults st)(u \<mapsto> r)"
  by (auto simp: linkUnit_def Let_def pushArtifact_def declareTarget_def
      split: sum.splits if_splits prod.splits)


lemma dependenciesLoop_sound:
  assumes visit: "\<And>st d r st'. memoSound env st \<Longrightarrow> visit st d = Some (Inr (r, st')) \<Longrightarrow>
             br_type r = typeUnionOver (objectFileType env ` reachableObjectFiles env d) \<and>
             memoSound env st'"
  shows "memoSound env st \<Longrightarrow>
         dependenciesLoop visit st (ut, fm, rs) ds = Some (Inr ((ut', fm', rs'), st')) \<Longrightarrow>
         ut' = typeUnion ut
                 (typeUnionOver (objectFileType env `
                    (\<Union>d \<in> set ds. reachableObjectFiles env d))) \<and>
         memoSound env st'"
proof (induction ds arbitrary: st ut fm rs)
  case Nil
  then show ?case by (simp add: typeUnionOver_empty typeUnion_NONE_right)
next
  case (Cons d ds)
  from Cons.prems(2) obtain r st1 where
    v: "visit st d = Some (Inr (r, st1))" and
    rest: "dependenciesLoop visit st1
             (typeUnion ut (br_type r), fm(d \<mapsto> br_output r), rs @ [r]) ds
           = Some (Inr ((ut', fm', rs'), st'))"
    by (auto split: option.splits sum.splits)
  from visit [OF Cons.prems(1) v] have
    t: "br_type r = typeUnionOver (objectFileType env ` reachableObjectFiles env d)"
    and m: "memoSound env st1" by simp_all
  from Cons.IH [OF m rest] have
    "ut' = typeUnion (typeUnion ut (br_type r))
             (typeUnionOver (objectFileType env ` (\<Union>d \<in> set ds. reachableObjectFiles env d)))"
    and m': "memoSound env st'" by simp_all
  then have "ut' = typeUnion ut
      (typeUnionOver (objectFileType env ` reachableObjectFiles env d
         \<union> objectFileType env ` (\<Union>d \<in> set ds. reachableObjectFiles env d)))"
    by (simp add: t typeUnion_assoc typeUnionOver_Un)
  with m' show ?case by (simp add: image_Un)
qed

lemma addLinkTargetRecursively_sound:
  "memoSound env st \<Longrightarrow>
   addLinkTargetRecursively depth env sfx t st u hp = Some (Inr (r, st')) \<Longrightarrow>
   br_type r = typeUnionOver (objectFileType env ` reachableObjectFiles env u) \<and>
   memoSound env st'"
proof (induction depth arbitrary: st u hp r st')
  case 0
  then show ?case by simp
next
  case (Suc depth)
  show ?case
  proof (cases "buildResults st u")
    case (Some known)
    with Suc.prems show ?thesis by (auto simp: memoSound_def)
  next
    case None
    show ?thesis
    proof (cases "isObjectFile env u")
      case True
      with None Suc.prems(2) obtain st1 where
        a: "addObjectFile env st u sfx = Inr (r, st1)" and
        s: "st' = st1\<lparr>buildResults := (buildResults st1)(u \<mapsto> r)\<rparr>"
        by (auto split: sum.splits)
      from addObjectFile_result [OF a] have
        t: "br_type r = objectFileType env u" and b: "buildResults st1 = buildResults st"
        by simp_all
      from t True have
        rt: "br_type r = typeUnionOver (objectFileType env ` reachableObjectFiles env u)"
        by (simp add: reachableObjectFiles_object typeUnionOver_single)
      with Suc.prems(1) s b have "memoSound env st'"
        by (auto simp: memoSound_def)
      with rt show ?thesis by simp
    next
      case False
      with None Suc.prems(2) obtain info ut fm rs st1 where
        i: "getClientLinkUnitInfo env u = Some info" and
        l: "dependenciesLoop
              (\<lambda>st' dependency. addLinkTargetRecursively depth env sfx t st' dependency True)
              st (NONE, Map.empty, []) (lu_files info) = Some (Inr ((ut, fm, rs), st1))" and
        k: "linkUnit env sfx t st1 u hp info ut fm rs = Inr (r, st')"
        by (auto split: option.splits sum.splits)
      have "ut = typeUnion NONE
                 (typeUnionOver (objectFileType env `
                    (\<Union>d \<in> set (lu_files info). reachableObjectFiles env d))) \<and>
            memoSound env st1"
        by (rule dependenciesLoop_sound [OF _ Suc.prems(1) l]) (rule Suc.IH)
      then have
        ut: "ut = typeUnionOver (objectFileType env ` reachableObjectFiles env u)"
        and m1: "memoSound env st1"
        by (simp_all add: reachableObjectFiles_unit [OF False i])
      from linkUnit_result [OF k] have
        t: "br_type r = ut" and b: "buildResults st' = (buildResults st1)(u \<mapsto> r)"
        by simp_all
      from m1 b t ut have "memoSound env st'" by (auto simp: memoSound_def)
      with t ut show ?thesis by simp
    qed
  qed
qed

lemma dependenciesLoop_returns:
  "(\<And>st d. d \<in> set ds \<Longrightarrow> visit st d \<noteq> None) \<Longrightarrow> dependenciesLoop visit st acc ds \<noteq> None"
proof (induction ds arbitrary: st acc)
  case Nil
  then show ?case by simp
next
  case (Cons d ds)
  obtain ut fm rs where acc: "acc = (ut, fm, rs)" by (cases acc)
  from Cons.prems [of d st] have "visit st d \<noteq> None" by simp
  moreover have "\<And>st' acc'. dependenciesLoop visit st' acc' ds \<noteq> None"
    by (rule Cons.IH) (simp add: Cons.prems)
  ultimately show ?case
    by (auto simp: acc split: option.splits sum.splits)
qed

lemma addLinkTargetRecursively_returns:
  assumes dag: "\<forall>u info d. \<not> isObjectFile env u \<and> getClientLinkUnitInfo env u = Some info \<and>
                  d \<in> set (lu_files info) \<longrightarrow> rank d < (rank u :: nat)"
  shows "rank u < depth \<Longrightarrow> addLinkTargetRecursively depth env sfx t st u hp \<noteq> None"
proof (induction depth arbitrary: st u hp)
  case 0
  then show ?case by simp
next
  case (Suc depth)
  show ?case
  proof (cases "buildResults st u = None \<and> \<not> isObjectFile env u \<and>
                getClientLinkUnitInfo env u \<noteq> None")
    case False
    then show ?thesis by (auto split: option.splits sum.splits)
  next
    case True
    then obtain info where i: "getClientLinkUnitInfo env u = Some info" by auto
    have "dependenciesLoop
            (\<lambda>st' dependency. addLinkTargetRecursively depth env sfx t st' dependency True)
            st (NONE, Map.empty, []) (lu_files info) \<noteq> None"
    proof (rule dependenciesLoop_returns)
      fix st' d assume "d \<in> set (lu_files info)"
      with dag True i have "rank d < rank u" by blast
      with Suc.prems have "rank d < depth" by simp
      then show "addLinkTargetRecursively depth env sfx t st' d True \<noteq> None"
        by (rule Suc.IH)
    qed
    with True i show ?thesis by (auto split: option.splits sum.splits)
  qed
qed


lemma memoSound_emptyPrinter: "memoSound env emptyPrinter"
  by (simp add: memoSound_def emptyPrinter_def)

text \<open>
  C2. The link dependencies form a DAG: some rank falls along the files of every link
  unit. Then a call of \<^verbatim>\<open>addLinkTargetRecursively\<close> on a unit returns, and whenever it
  returns a build result, the \<^verbatim>\<open>type\<close> of that result is the union, in the monoid with
  identity \<open>NONE\<close>, of the tags of all object files the unit reaches, where an object
  file whose source is in the stub set counts \<open>ALL_STUBS\<close> and every other object file
  \<open>NO_STUBS\<close>. The memo the call starts from is sound, as the empty memo is
  (\<open>memoSound_emptyPrinter\<close>); \<open>typeUnionOver_set\<close> shows the union over a set to be
  the fold of the binary union.
\<close>

theorem C2_type_is_union_over_reachable_objects:
  assumes memo: "memoSound env st"
    and dag: "\<forall>u info d. \<not> isObjectFile env u \<and> getClientLinkUnitInfo env u = Some info \<and>
                d \<in> set (lu_files info) \<longrightarrow> rank d < (rank u :: nat)"
  shows "(\<exists>depth. addLinkTargetRecursively depth env sfx t st unitFile hp \<noteq> None) \<and>
         (\<forall>depth r st'.
            addLinkTargetRecursively depth env sfx t st unitFile hp = Some (Inr (r, st')) \<longrightarrow>
            br_type r
              = typeUnionOver (objectFileType env ` reachableObjectFiles env unitFile))"
proof
  have "rank unitFile < Suc (rank unitFile)" by simp
  from addLinkTargetRecursively_returns [OF dag this]
  show "\<exists>depth. addLinkTargetRecursively depth env sfx t st unitFile hp \<noteq> None"
    by blast
next
  show "\<forall>depth r st'.
            addLinkTargetRecursively depth env sfx t st unitFile hp = Some (Inr (r, st')) \<longrightarrow>
            br_type r
              = typeUnionOver (objectFileType env ` reachableObjectFiles env unitFile)"
    using addLinkTargetRecursively_sound [OF memo] by blast
qed

lemmas project_defs =
  exampleProject_def exampleLinkUnit_def exampleCompilationUnit_def objectInfo_def
  archiveCommand_def appCommand_def emptyPrinter_def hasExtension_def exampleRank_def

lemmas printer_defs =
  addObjectFile_def addCompileTarget_def declareTarget_def pushArtifact_def linkUnit_def
  linkAction_def transformedCommand_def transformNonArchive_def substituteInputs_def
  substituteInput_def libraryDirectoryFlags_def getSharedLibrary_def forEachArgument_def
  eraseFlag_def setOutput_def setLinker_def addFlagsToBegin_def addFlagToBegin_def
  addFlagToEnd_def getCommandLine_def erase_def STATIC_FLAG_def SHARED_FLAG_def
  RELOCATE_FLAG_def OPTIMIZATION_FLAG_def STUB_OBJECT_FILES_def

lemma example_library:
  "\<exists>r st'. addLinkTargetRecursively (Suc (Suc 0)) exampleProject [] False emptyPrinter
             ''/project/build/libroot.a'' False = Some (Inr (r, st')) \<and>
           br_type r = MIXED"
  by (simp add: project_defs printer_defs tryChangeToRelativePath_def relativeTo_def
      startsWith_def Let_def)


lemma example_dag:
  "\<forall>u info d. \<not> isObjectFile exampleProject u \<and>
       getClientLinkUnitInfo exampleProject u = Some info \<and> d \<in> set (lu_files info) \<longrightarrow>
       exampleRank d < exampleRank u"
  by (auto simp: project_defs split: if_splits)

theorem C2_type_is_union_over_reachable_objects_witness:
  "\<exists>r st'. addLinkTargetRecursively (Suc (Suc 0)) exampleProject [] False emptyPrinter
             ''/project/build/libroot.a'' False = Some (Inr (r, st')) \<and>
           br_type r = MIXED \<and>
           typeUnionOver (objectFileType exampleProject `
              reachableObjectFiles exampleProject ''/project/build/libroot.a'') = MIXED"
proof -
  from example_library obtain r st' where
    run: "addLinkTargetRecursively (Suc (Suc 0)) exampleProject [] False emptyPrinter
             ''/project/build/libroot.a'' False = Some (Inr (r, st'))"
    and mixed: "br_type r = MIXED" by blast
  from C2_type_is_union_over_reachable_objects [OF memoSound_emptyPrinter example_dag,
      of "[]" False "''/project/build/libroot.a''" False] run
  have "br_type r = typeUnionOver (objectFileType exampleProject `
              reachableObjectFiles exampleProject ''/project/build/libroot.a'')"
    by blast
  with run mixed show ?thesis by auto
qed



lemma tryChange_flags [simp]:
  "tryChangeToRelativePath rel ''-r'' = ''-r''"
  "tryChangeToRelativePath rel ''-shared'' = ''-shared''"
  by (simp_all add: tryChangeToRelativePath_def startsWith_def)

















end
